theory Spec2Isabelle
  imports Complex_Main
begin

section \<open>Conventions of the embedding\<close>

text \<open>
  The storefront backend is TypeScript over a document store, reached through mongoose
  models. The embedding follows the model methods (the order and cart models of
  \<^verbatim>\<open>src/models/Order.ts\<close>, \<^verbatim>\<open>PromoCode.ts\<close>, \<^verbatim>\<open>Product.ts\<close>) and the checkout
  routes (\<^verbatim>\<open>src/routes/checkout.ts\<close>).

  \<^item> A JavaScript \<^verbatim>\<open>number\<close> is a \<^typ>\<open>real\<close>: arithmetic is exact, rounding of
    IEEE doubles, \<^verbatim>\<open>NaN\<close> and infinities are outside the model.
  \<^item> An optional field (\<^verbatim>\<open>maxDiscount?: number\<close>) is an \<^typ>\<open>'a option\<close>; the
    JavaScript test \<^verbatim>\<open>if (x)\<close> on it is written out as truthiness: an absent value,
    the number 0 and the empty string are all falsy.
  \<^item> An \<^verbatim>\<open>ObjectId\<close> is the string its \<^verbatim>\<open>toString()\<close> gives: 24 hexadecimal
    digits in lower case. \<^verbatim>\<open>new ObjectId(s)\<close> accepts a string of 24 hexadecimal digits
    in either case and throws on any other string.
  \<^item> A \<^verbatim>\<open>Date\<close> is an \<^typ>\<open>int\<close> (milliseconds); the clock read by
    \<^verbatim>\<open>new Date()\<close> is an explicit argument \<open>now\<close>, the same for every read
    within one request.
  \<^item> A method that assigns to \<^verbatim>\<open>this\<close> takes the document and returns the updated
    one; a method that may throw returns the message of the error (\<^term>\<open>None\<close> when
    it returns normally) beside the document as it is in memory at that point.
  \<^item> \<^verbatim>\<open>save()\<close> validates the document against its schema first (\<^verbatim>\<open>required\<close>,
    \<^verbatim>\<open>min\<close>), throws a validation error and writes nothing when a bound is broken, and
    otherwise runs the schema's \<^verbatim>\<open>pre('save')\<close> middleware and writes the document. A
    required string is broken by the empty string as by an absent one.
  \<^item> A query value for a path declared \<^verbatim>\<open>uppercase: true\<close> is upper-cased by the same
    setter that upper-cases the stored value; \<^verbatim>\<open>findOne\<close> returns the first document
    matching the filter.
\<close>

definition truthy_num :: "real option \<Rightarrow> bool" where
  "truthy_num x = (case x of None \<Rightarrow> False | Some v \<Rightarrow> v \<noteq> 0)"

definition truthy_str :: "string option \<Rightarrow> bool" where
  "truthy_str x = (case x of None \<Rightarrow> False | Some s \<Rightarrow> s \<noteq> [])"

text \<open>The string an optional string stands for under \<^verbatim>\<open>if (x)\<close>, if any.\<close>

definition supplied :: "string option \<Rightarrow> string option" where
  "supplied x = (if truthy_str x then x else None)"

text \<open>\<^verbatim>\<open>Array.prototype.findIndex\<close>: the index of the first element satisfying the
  predicate; JavaScript's \<^verbatim>\<open>-1\<close> is \<^term>\<open>None\<close>.\<close>

fun findIndex :: "('a \<Rightarrow> bool) \<Rightarrow> 'a list \<Rightarrow> nat option" where
  "findIndex P [] = None"
| "findIndex P (x # xs) = (if P x then Some 0 else map_option Suc (findIndex P xs))"

text \<open>\<^verbatim>\<open>xs.splice(i, 1)\<close>: remove the element at index \<open>i\<close>.\<close>

definition splice1 :: "nat \<Rightarrow> 'a list \<Rightarrow> 'a list" where
  "splice1 i xs = take i xs @ drop (Suc i) xs"

text \<open>\<^verbatim>\<open>new mongoose.Types.ObjectId(s)\<close>, read back with \<^verbatim>\<open>toString()\<close>.\<close>

definition hex_digit :: "char \<Rightarrow> bool" where
  "hex_digit c = (c \<in> set ''0123456789abcdefABCDEF'')"

definition lower_hex :: "char \<Rightarrow> char" where
  "lower_hex c = (case map_of (zip ''ABCDEF'' ''abcdef'') c of Some l \<Rightarrow> l | None \<Rightarrow> c)"

definition ObjectId :: "string \<Rightarrow> string option" where
  "ObjectId s = (if length s = 24 \<and> list_all hex_digit s then Some (map lower_hex s) else None)"

section \<open>The cart (the cart model of models/Order.ts)\<close>

text \<open>A cart line. \<^verbatim>\<open>productId\<close> is an \<^verbatim>\<open>ObjectId\<close>; in the \<^verbatim>\<open>itemData\<close> argument
  of \<^verbatim>\<open>addItem\<close>, which has the same fields, it is the string the client sent.\<close>

record ICartItem =
  productId :: string
  variantId :: string
  quantity :: real
  price :: real
  productName :: string
  variantName :: string
  sku :: string

record ICart =
  cart_id :: string
  token :: string
  items :: "ICartItem list"
  promoCode :: "string option"
  subtotal :: real
  discount :: real
  total :: real
  expiresAt :: int

text \<open>\<^verbatim>\<open>calculateTotals\<close>: the \<^verbatim>\<open>reduce\<close> over the lines, then the total. The discount
  is read, never written.\<close>

definition calculateTotals :: "ICart \<Rightarrow> ICart" where
  "calculateTotals this =
     (let this1 = this\<lparr>subtotal :=
                    foldl (\<lambda>sum item. sum + price item * quantity item) 0 (items this)\<rparr>
      in this1\<lparr>total := subtotal this1 - discount this1\<rparr>)"

text \<open>What the cart schema demands of a document: every line has its required strings,
  a quantity of at least 1 and a price that is not negative; the token is there; subtotal,
  discount and total are not negative.\<close>

definition cartItemSchema_ok :: "ICartItem \<Rightarrow> bool" where
  "cartItemSchema_ok item =
     (variantId item \<noteq> [] \<and> 1 \<le> quantity item \<and> 0 \<le> price item
      \<and> productName item \<noteq> [] \<and> variantName item \<noteq> [] \<and> sku item \<noteq> [])"

definition cartSchema_ok :: "ICart \<Rightarrow> bool" where
  "cartSchema_ok c =
     (token c \<noteq> [] \<and> list_all cartItemSchema_ok (items c)
      \<and> 0 \<le> subtotal c \<and> 0 \<le> discount c \<and> 0 \<le> total c)"

text \<open>\<^verbatim>\<open>this.save()\<close> on a cart: validation, then the \<^verbatim>\<open>pre('save')\<close> middleware that
  recomputes the totals, then the write.\<close>

definition save :: "ICart \<Rightarrow> string option \<times> ICart" where
  "save this =
     (if cartSchema_ok this then (None, calculateTotals this)
      else (Some ''Cart validation failed'', this))"

text \<open>The test of the three \<^verbatim>\<open>findIndex\<close>/\<^verbatim>\<open>filter\<close> callbacks:
  \<^verbatim>\<open>item.productId.toString() === productId && item.variantId === variantId\<close>, the
  second \<^verbatim>\<open>productId\<close> being the string the caller passed.\<close>

definition same_line :: "string \<Rightarrow> string \<Rightarrow> ICartItem \<Rightarrow> bool" where
  "same_line pid vid item = (productId item = pid \<and> variantId item = vid)"

text \<open>The pair that identifies a line within a cart.\<close>

definition line_key :: "ICartItem \<Rightarrow> string \<times> string" where
  "line_key item = (productId item, variantId item)"

text \<open>\<^verbatim>\<open>addItem\<close>: the line found by the raw string gets the quantity added; otherwise
  the item is pushed with \<^verbatim>\<open>productId: new ObjectId(itemData.productId)\<close>.\<close>

definition addItem :: "ICartItem \<Rightarrow> ICart \<Rightarrow> string option \<times> ICart" where
  "addItem itemData this =
     (case findIndex (same_line (productId itemData) (variantId itemData)) (items this) of
        Some existingItemIndex \<Rightarrow>
          save (calculateTotals
            (this\<lparr>items := (items this)[existingItemIndex :=
               (items this ! existingItemIndex)
                 \<lparr>quantity := quantity (items this ! existingItemIndex) + quantity itemData\<rparr>]\<rparr>))
      | None \<Rightarrow>
          (case ObjectId (productId itemData) of
             None \<Rightarrow> (Some ''input must be a 24 character hex string'', this)
           | Some oid \<Rightarrow>
               save (calculateTotals
                 (this\<lparr>items := items this @ [itemData\<lparr>productId := oid\<rparr>]\<rparr>))))"

text \<open>\<^verbatim>\<open>updateItemQuantity\<close> throws before any assignment when no line matches.\<close>

definition updateItemQuantity ::
    "string \<Rightarrow> string \<Rightarrow> real \<Rightarrow> ICart \<Rightarrow> string option \<times> ICart" where
  "updateItemQuantity pid vid qty this =
     (case findIndex (same_line pid vid) (items this) of
        None \<Rightarrow> (Some ''Item not found in cart'', this)
      | Some itemIndex \<Rightarrow>
          save (calculateTotals
            (if qty \<le> 0 then this\<lparr>items := splice1 itemIndex (items this)\<rparr>
             else this\<lparr>items := (items this)[itemIndex :=
                    (items this ! itemIndex)\<lparr>quantity := qty\<rparr>]\<rparr>)))"

definition removeItem :: "string \<Rightarrow> string \<Rightarrow> ICart \<Rightarrow> string option \<times> ICart" where
  "removeItem pid vid this =
     save (calculateTotals
       (this\<lparr>items := filter (\<lambda>item. \<not> same_line pid vid item) (items this)\<rparr>))"

definition clearCart :: "ICart \<Rightarrow> string option \<times> ICart" where
  "clearCart this =
     save (calculateTotals (this\<lparr>items := [], promoCode := None, discount := 0\<rparr>))"

definition applyPromoCode :: "string \<Rightarrow> real \<Rightarrow> ICart \<Rightarrow> string option \<times> ICart" where
  "applyPromoCode pc discountAmount this =
     save (calculateTotals
       (this\<lparr>promoCode := Some pc, discount := min discountAmount (subtotal this)\<rparr>))"

definition removePromoCode :: "ICart \<Rightarrow> string option \<times> ICart" where
  "removePromoCode this =
     save (calculateTotals (this\<lparr>promoCode := None, discount := 0\<rparr>))"

subsection \<open>Sequences of cart operations\<close>

datatype cart_op =
    AddItem ICartItem
  | UpdateItemQuantity string string real
  | RemoveItem string string
  | ApplyPromoCode string real
  | RemovePromoCode
  | ClearCart

definition call_cart_op :: "cart_op \<Rightarrow> ICart \<Rightarrow> string option \<times> ICart" where
  "call_cart_op op c =
     (case op of
        AddItem itemData \<Rightarrow> addItem itemData c
      | UpdateItemQuantity pid vid qty \<Rightarrow> updateItemQuantity pid vid qty c
      | RemoveItem pid vid \<Rightarrow> removeItem pid vid c
      | ApplyPromoCode pc d \<Rightarrow> applyPromoCode pc d c
      | RemovePromoCode \<Rightarrow> removePromoCode c
      | ClearCart \<Rightarrow> clearCart c)"

text \<open>The stored cart after a request: each route loads the cart, calls the method, and
  a method that throws has written nothing, so the stored cart is as it was.\<close>

definition apply_cart_op :: "cart_op \<Rightarrow> ICart \<Rightarrow> ICart" where
  "apply_cart_op op c = (case call_cart_op op c of (None, c') \<Rightarrow> c' | (Some err, _) \<Rightarrow> c)"

definition run_cart_ops :: "cart_op list \<Rightarrow> ICart \<Rightarrow> ICart" where
  "run_cart_ops ops c = foldl (\<lambda>c' op. apply_cart_op op c') c ops"

text \<open>The property of the specification's cart invariant, as it is worded there.\<close>

definition line_sum :: "ICartItem list \<Rightarrow> real" where
  "line_sum xs = sum_list (map (\<lambda>item. price item * quantity item) xs)"

definition spec_cart_invariant :: "ICart \<Rightarrow> bool" where
  "spec_cart_invariant c =
     (subtotal c = line_sum (items c) \<and> total c = subtotal c - discount c
      \<and> 0 \<le> discount c \<and> discount c \<le> subtotal c)"

text \<open>A cart as a save leaves it in the store: within the schema, with the totals the
  middleware computed.\<close>

definition stored_cart :: "ICart \<Rightarrow> bool" where
  "stored_cart c = (cartSchema_ok c \<and> calculateTotals c = c)"

text \<open>The cart \<^verbatim>\<open>createOrGetCart\<close> saves: the token (generated when none is given, so
  never empty), no lines, the schema's defaults for the amounts, seven days to live.\<close>

definition new_cart :: "string \<Rightarrow> string \<Rightarrow> int \<Rightarrow> ICart" where
  "new_cart cid tok now =
     calculateTotals
       \<lparr>cart_id = cid, token = tok, items = [], promoCode = None, subtotal = 0,
        discount = 0, total = 0, expiresAt = now + 7 * 24 * 60 * 60 * 1000\<rparr>"

section \<open>Promo codes (models/PromoCode.ts)\<close>

datatype promo_type = Percentage | Fixed

record IPromoCode =
  promo_id :: string
  code :: string
  ptype :: promo_type
  pvalue :: real
  maxDiscount :: "real option"
  minOrderAmount :: "real option"
  validFrom :: int
  validTo :: int
  maxUses :: "real option"
  usedCount :: real
  isActive :: bool

text \<open>The promo methods are written as calls on the document: each returns its result
  together with \<^verbatim>\<open>this\<close> as the call leaves it. \<^verbatim>\<open>!this.maxUses\<close> holds for an absent
  and for a zero \<^verbatim>\<open>maxUses\<close>.\<close>

definition isValid :: "int \<Rightarrow> IPromoCode \<Rightarrow> bool \<times> IPromoCode" where
  "isValid now this =
     (isActive this \<and> validFrom this \<le> now \<and> now \<le> validTo this
      \<and> (\<not> truthy_num (maxUses this)
           \<or> (case maxUses this of Some m \<Rightarrow> usedCount this < m | None \<Rightarrow> False)),
      this)"

definition calculateDiscount :: "real \<Rightarrow> int \<Rightarrow> IPromoCode \<Rightarrow> real \<times> IPromoCode" where
  "calculateDiscount amount now this =
     (case isValid now this of (valid, this1) \<Rightarrow>
        if \<not> valid then (0, this1)
        else if truthy_num (minOrderAmount this1)
                \<and> (case minOrderAmount this1 of Some m \<Rightarrow> amount < m | None \<Rightarrow> False)
        then (0, this1)
        else
          (let d0 = (if ptype this1 = Percentage then (amount * pvalue this1) / 100
                     else pvalue this1);
               d1 = (if truthy_num (maxDiscount this1)
                     then (case maxDiscount this1 of Some m \<Rightarrow> min d0 m | None \<Rightarrow> d0)
                     else d0)
           in (min d1 amount, this1)))"

definition incrementUsage :: "IPromoCode \<Rightarrow> IPromoCode" where
  "incrementUsage this = this\<lparr>usedCount := usedCount this + 1\<rparr>"

text \<open>\<^verbatim>\<open>String.prototype.toUpperCase\<close>, on the ASCII letters.\<close>

definition upper_char :: "char \<Rightarrow> char" where
  "upper_char c =
     (case map_of (zip ''abcdefghijklmnopqrstuvwxyz'' ''ABCDEFGHIJKLMNOPQRSTUVWXYZ'') c of
        Some u \<Rightarrow> u
      | None \<Rightarrow> c)"

definition toUpperCase :: "string \<Rightarrow> string" where
  "toUpperCase s = map upper_char s"

text \<open>\<^verbatim>\<open>findValidPromoCode\<close>: the store's query (code, active, window, and
  \<^verbatim>\<open>maxUses\<close> absent or not reached), then the minimum order amount.\<close>

definition promo_query :: "string \<Rightarrow> int \<Rightarrow> IPromoCode \<Rightarrow> bool" where
  "promo_query c now p =
     (code p = toUpperCase c \<and> isActive p \<and> validFrom p \<le> now \<and> now \<le> validTo p
      \<and> (case maxUses p of None \<Rightarrow> True | Some m \<Rightarrow> usedCount p < m))"

definition findValidPromoCode ::
    "string \<Rightarrow> real \<Rightarrow> int \<Rightarrow> IPromoCode list \<Rightarrow> IPromoCode option" where
  "findValidPromoCode c amount now promos =
     (case find (promo_query c now) promos of
        None \<Rightarrow> None
      | Some found \<Rightarrow>
          if truthy_num (minOrderAmount found)
             \<and> (case minOrderAmount found of Some m \<Rightarrow> amount < m | None \<Rightarrow> False)
          then None else Some found)"

text \<open>The bounds the promo schema declares: \<^verbatim>\<open>min: 0\<close> on \<^verbatim>\<open>value\<close>,
  \<^verbatim>\<open>maxDiscount\<close>, \<^verbatim>\<open>minOrderAmount\<close> and \<^verbatim>\<open>usedCount\<close>, \<^verbatim>\<open>min: 1\<close> on
  \<^verbatim>\<open>maxUses\<close>.\<close>

definition at_least :: "real \<Rightarrow> real option \<Rightarrow> bool" where
  "at_least b x = (case x of None \<Rightarrow> True | Some v \<Rightarrow> b \<le> v)"

definition promoCodeSchema_ok :: "IPromoCode \<Rightarrow> bool" where
  "promoCodeSchema_ok p =
     (0 \<le> pvalue p \<and> at_least 0 (maxDiscount p) \<and> at_least 0 (minOrderAmount p)
      \<and> at_least 1 (maxUses p) \<and> 0 \<le> usedCount p)"

text \<open>The promo engine as the specification words it: validity, then the minimum order
  amount, the raw discount, the cap whenever one is set, the subtotal.\<close>

definition spec_isValid :: "IPromoCode \<Rightarrow> int \<Rightarrow> bool" where
  "spec_isValid promo now =
     (isActive promo \<and> validFrom promo \<le> now \<and> now \<le> validTo promo
      \<and> (case maxUses promo of None \<Rightarrow> True | Some m \<Rightarrow> usedCount promo < m))"

definition spec_raw_discount :: "IPromoCode \<Rightarrow> real \<Rightarrow> real" where
  "spec_raw_discount promo amount =
     (case ptype promo of Percentage \<Rightarrow> amount * pvalue promo / 100 | Fixed \<Rightarrow> pvalue promo)"

definition spec_calculateDiscount :: "IPromoCode \<Rightarrow> real \<Rightarrow> int \<Rightarrow> real" where
  "spec_calculateDiscount promo amount now =
     (if \<not> spec_isValid promo now then 0
      else if (case minOrderAmount promo of None \<Rightarrow> False | Some m \<Rightarrow> amount < m) then 0
      else min (case maxDiscount promo of None \<Rightarrow> spec_raw_discount promo amount
                | Some m \<Rightarrow> min (spec_raw_discount promo amount) m) amount)"

text \<open>A zero in an optional numeric field read as an absent one.\<close>

definition zero_unset :: "real option \<Rightarrow> real option" where
  "zero_unset x = (if truthy_num x then x else None)"

definition zeros_unset :: "IPromoCode \<Rightarrow> IPromoCode" where
  "zeros_unset p = p\<lparr>maxDiscount := zero_unset (maxDiscount p),
                     minOrderAmount := zero_unset (minOrderAmount p),
                     maxUses := zero_unset (maxUses p)\<rparr>"

section \<open>Products (models/Product.ts)\<close>

record IProductVariant =
  variant_id :: string
  variant_name :: string
  variant_sku :: string
  variant_price :: real
  stock :: real

record IProduct =
  product_id :: string
  product_name :: string
  variants :: "IProductVariant list"
  product_isActive :: bool

text \<open>\<^verbatim>\<open>this.variants.id(variantId)\<close> is the first variant with that identifier.\<close>

definition variant_index :: "string \<Rightarrow> IProduct \<Rightarrow> nat option" where
  "variant_index vid this = findIndex (\<lambda>v. variant_id v = vid) (variants this)"

definition updateStock :: "string \<Rightarrow> real \<Rightarrow> IProduct \<Rightarrow> string option \<times> IProduct" where
  "updateStock vid qty this =
     (case variant_index vid this of
        None \<Rightarrow> (Some ''Variant not found'', this)
      | Some i \<Rightarrow>
          (let variant = variants this ! i in
           if stock variant < qty then (Some ''Insufficient stock'', this)
           else (None, this\<lparr>variants := (variants this)[i := variant\<lparr>stock := stock variant - qty\<rparr>]\<rparr>)))"

definition isInStock :: "string \<Rightarrow> real \<Rightarrow> IProduct \<Rightarrow> bool" where
  "isInStock vid qty this =
     (case variant_index vid this of
        None \<Rightarrow> False
      | Some i \<Rightarrow> qty \<le> stock (variants this ! i))"

section \<open>Orders (the order model of models/Order.ts)\<close>

datatype order_status = Pending | Confirmed | Shipped | Delivered | Cancelled

datatype payment_status = PaymentPending | Paid | PaymentFailed | Refunded

datatype payment_method = CreditCard | Paypal | Stripe

record ICustomerInfo =
  email :: string
  firstName :: string
  lastName :: string
  phone :: "string option"

record IAddress =
  street :: string
  city :: string
  state :: string
  zipCode :: string
  country :: string

text \<open>An order line has the fields of a cart line (\<^verbatim>\<open>IOrderItem\<close> and \<^verbatim>\<open>ICartItem\<close>
  are the same interface), so the cart's list is copied as it is.\<close>

record IOrder =
  orderNumber :: string
  cartId :: string
  customerInfo :: ICustomerInfo
  shippingAddress :: IAddress
  billingAddress :: IAddress
  order_items :: "ICartItem list"
  order_subtotal :: real
  order_discount :: real
  order_total :: real
  order_promoCode :: "string option"
  status :: order_status
  paymentMethod :: payment_method
  paymentStatus :: payment_status
  trackingNumber :: "string option"
  order_notes :: "string option"

text \<open>What the order schema demands: an order number, the customer's and the address's
  required strings, amounts that are not negative, lines with a quantity of at least 1 and
  a price that is not negative. An order number that was never assigned is the empty
  string here: both are falsy and both break \<^verbatim>\<open>required\<close>.\<close>

definition customerInfoSchema_ok :: "ICustomerInfo \<Rightarrow> bool" where
  "customerInfoSchema_ok ci = (email ci \<noteq> [] \<and> firstName ci \<noteq> [] \<and> lastName ci \<noteq> [])"

definition addressSchema_ok :: "IAddress \<Rightarrow> bool" where
  "addressSchema_ok a =
     (street a \<noteq> [] \<and> city a \<noteq> [] \<and> state a \<noteq> [] \<and> zipCode a \<noteq> [] \<and> country a \<noteq> [])"

definition orderSchema_ok :: "IOrder \<Rightarrow> bool" where
  "orderSchema_ok ord =
     (orderNumber ord \<noteq> [] \<and> customerInfoSchema_ok (customerInfo ord)
      \<and> addressSchema_ok (shippingAddress ord) \<and> addressSchema_ok (billingAddress ord)
      \<and> list_all cartItemSchema_ok (order_items ord)
      \<and> 0 \<le> order_subtotal ord \<and> 0 \<le> order_discount ord \<and> 0 \<le> order_total ord)"

text \<open>\<^verbatim>\<open>order.save()\<close> for a new order: validation first; the \<^verbatim>\<open>pre('save')\<close>
  middleware, which gives an order without a number the generated one \<open>ordno\<close>, runs only
  after the validation has passed.\<close>

definition save_new_order :: "string \<Rightarrow> IOrder \<Rightarrow> string option \<times> IOrder" where
  "save_new_order ordno this =
     (if orderSchema_ok this
      then (None, if orderNumber this = [] then this\<lparr>orderNumber := ordno\<rparr> else this)
      else (Some ''Order validation failed'', this))"

definition updateStatus ::
    "order_status \<Rightarrow> string option \<Rightarrow> string option \<Rightarrow> IOrder \<Rightarrow> IOrder" where
  "updateStatus st tn nt this =
     (let this1 = this\<lparr>status := st\<rparr>;
          this2 = (if truthy_str tn then this1\<lparr>trackingNumber := tn\<rparr> else this1);
          this3 = (if truthy_str nt then this2\<lparr>order_notes := nt\<rparr> else this2)
      in this3)"

definition updatePaymentStatus :: "payment_status \<Rightarrow> IOrder \<Rightarrow> IOrder" where
  "updatePaymentStatus ps this = this\<lparr>paymentStatus := ps\<rparr>"

section \<open>The document store\<close>

record store =
  carts :: "ICart list"
  products :: "IProduct list"
  promoCodes :: "IPromoCode list"
  orders :: "IOrder list"

text \<open>Writing a document back replaces the stored document with the same identifier; a
  new document is appended.\<close>

definition put :: "('a \<Rightarrow> string) \<Rightarrow> 'a \<Rightarrow> 'a list \<Rightarrow> 'a list" where
  "put key doc docs =
     (if list_ex (\<lambda>d. key d = key doc) docs
      then map (\<lambda>d. if key d = key doc then doc else d) docs
      else docs @ [doc])"

text \<open>\<^verbatim>\<open>Cart.findOne({ _id: cartId, expiresAt: { $gt: new Date() } })\<close>.\<close>

definition findCart :: "string \<Rightarrow> int \<Rightarrow> ICart list \<Rightarrow> ICart option" where
  "findCart cid now cs = find (\<lambda>c. cart_id c = cid \<and> now < expiresAt c) cs"

definition findById :: "string \<Rightarrow> IProduct list \<Rightarrow> IProduct option" where
  "findById pid ps = find (\<lambda>p. product_id p = pid) ps"

text \<open>\<^verbatim>\<open>PromoCode.findOne({ code: c })\<close>: the schema's \<^verbatim>\<open>uppercase\<close> setter is applied to
  the value of the filter.\<close>

definition findPromoByCode :: "string \<Rightarrow> IPromoCode list \<Rightarrow> IPromoCode option" where
  "findPromoByCode c promos = find (\<lambda>p. code p = toUpperCase c) promos"

section \<open>Checkout (routes/checkout.ts)\<close>

record CheckoutInput =
  req_cartId :: string
  req_customerInfo :: ICustomerInfo
  req_shippingAddress :: IAddress
  req_billingAddress :: "IAddress option"
  req_paymentMethod :: payment_method
  req_promoCode :: "string option"

text \<open>The failures of the two routes. \<^verbatim>\<open>CartNotFound\<close> is the 404, \<^verbatim>\<open>InternalError\<close>
  the 500 of the \<^verbatim>\<open>catch\<close> block (with the message of the error thrown), the others are
  the 400 responses; \<open>message\<close> is the text the route sends.\<close>

datatype checkout_error =
    CartNotFound
  | EmptyCart
  | ProductUnavailable string
  | InsufficientStock string string
  | InvalidPromo
  | InternalError string

fun message :: "checkout_error \<Rightarrow> string" where
  "message CartNotFound = ''Cart not found or expired''"
| "message EmptyCart = ''Cart is empty''"
| "message (ProductUnavailable pn) = ''Product '' @ pn @ '' is no longer available''"
| "message (InsufficientStock pn vn) = ''Insufficient stock for '' @ pn @ '' - '' @ vn"
| "message InvalidPromo = ''Invalid or expired promo code''"
| "message (InternalError m) = ''Failed to create order''"

text \<open>The body of the stock loop for one line: the product is fetched again, it must
  exist and be active, and the variant must hold the line's quantity.\<close>

definition validateLine :: "IProduct list \<Rightarrow> ICartItem \<Rightarrow> checkout_error option" where
  "validateLine ps item =
     (case findById (productId item) ps of
        None \<Rightarrow> Some (ProductUnavailable (productName item))
      | Some product \<Rightarrow>
          if \<not> product_isActive product then Some (ProductUnavailable (productName item))
          else if \<not> isInStock (variantId item) (quantity item) product
          then Some (InsufficientStock (productName item) (variantName item))
          else None)"

text \<open>The checkout route returns at the first line that fails.\<close>

fun validateStock :: "IProduct list \<Rightarrow> ICartItem list \<Rightarrow> checkout_error option" where
  "validateStock ps [] = None"
| "validateStock ps (item # rest) =
     (case validateLine ps item of
        Some e \<Rightarrow> Some e
      | None \<Rightarrow> validateStock ps rest)"

text \<open>The second loop: one \<^verbatim>\<open>updateStock\<close> per line, each written to the store before
  the next line is read. A throw ends the loop with the writes made so far.\<close>

fun updateStockAll ::
    "ICartItem list \<Rightarrow> IProduct list \<Rightarrow> string option \<times> IProduct list" where
  "updateStockAll [] ps = (None, ps)"
| "updateStockAll (item # rest) ps =
     (case findById (productId item) ps of
        None \<Rightarrow> updateStockAll rest ps
      | Some product \<Rightarrow>
          (case updateStock (variantId item) (quantity item) product of
             (Some err, _) \<Rightarrow> (Some err, ps)
           | (None, product') \<Rightarrow> updateStockAll rest (put product_id product' ps)))"

text \<open>The discount of the order: the cart's own, or the supplied code's when one is
  supplied (\<^verbatim>\<open>if (checkoutData.promoCode)\<close>).\<close>

definition finalDiscount ::
    "string option \<Rightarrow> int \<Rightarrow> ICart \<Rightarrow> IPromoCode list \<Rightarrow> checkout_error + real" where
  "finalDiscount pc now cart promos =
     (case supplied pc of
        None \<Rightarrow> Inr (discount cart)
      | Some c \<Rightarrow>
          (case findValidPromoCode c (subtotal cart) now promos of
             None \<Rightarrow> Inl InvalidPromo
           | Some found \<Rightarrow> Inr (fst (calculateDiscount (subtotal cart) now found))))"

text \<open>\<^verbatim>\<open>new Order({...})\<close> as the route builds it: no \<^verbatim>\<open>orderNumber\<close> is passed.\<close>

definition newOrder :: "CheckoutInput \<Rightarrow> ICart \<Rightarrow> real \<Rightarrow> IOrder" where
  "newOrder checkoutData cart fd =
     \<lparr>orderNumber = [],
      cartId = cart_id cart,
      customerInfo = req_customerInfo checkoutData,
      shippingAddress = req_shippingAddress checkoutData,
      billingAddress = (case req_billingAddress checkoutData of
                          Some a \<Rightarrow> a | None \<Rightarrow> req_shippingAddress checkoutData),
      order_items = items cart,
      order_subtotal = subtotal cart,
      order_discount = fd,
      order_total = subtotal cart - fd,
      order_promoCode = (if truthy_str (req_promoCode checkoutData)
                         then req_promoCode checkoutData else promoCode cart),
      status = Pending,
      paymentMethod = req_paymentMethod checkoutData,
      paymentStatus = PaymentPending,
      trackingNumber = None,
      order_notes = None\<rparr>"

text \<open>The usage counter: only under \<^verbatim>\<open>if (checkoutData.promoCode)\<close>, on the promo that
  \<^verbatim>\<open>findOne({ code: checkoutData.promoCode })\<close> returns, if any.\<close>

definition recordUsage :: "string option \<Rightarrow> IPromoCode list \<Rightarrow> IPromoCode list" where
  "recordUsage pc promos =
     (case supplied pc of
        None \<Rightarrow> promos
      | Some c \<Rightarrow>
          (case findPromoByCode c promos of
             None \<Rightarrow> promos
           | Some found \<Rightarrow> put promo_id (incrementUsage found) promos))"

text \<open>The checkout route. Every \<^verbatim>\<open>await\<close> that throws ends in the \<^verbatim>\<open>catch\<close> block
  with the writes made before it: the order's save, each \<^verbatim>\<open>updateStock\<close>, the cart's
  \<^verbatim>\<open>clearCart\<close>.\<close>

definition checkout ::
    "string \<Rightarrow> int \<Rightarrow> CheckoutInput \<Rightarrow> store \<Rightarrow> (checkout_error + IOrder) \<times> store" where
  "checkout ordno now checkoutData s =
     (case findCart (req_cartId checkoutData) now (carts s) of
        None \<Rightarrow> (Inl CartNotFound, s)
      | Some cart \<Rightarrow>
          if items cart = [] then (Inl EmptyCart, s)
          else
            (case validateStock (products s) (items cart) of
               Some e \<Rightarrow> (Inl e, s)
             | None \<Rightarrow>
                 (case finalDiscount (req_promoCode checkoutData) now cart (promoCodes s) of
                    Inl e \<Rightarrow> (Inl e, s)
                  | Inr fd \<Rightarrow>
                      (case save_new_order ordno (newOrder checkoutData cart fd) of
                         (Some err, _) \<Rightarrow> (Inl (InternalError err), s)
                       | (None, order) \<Rightarrow>
                           (let s1 = s\<lparr>orders := orders s @ [order]\<rparr>
                            in case updateStockAll (items cart) (products s1) of
                                 (Some err, ps) \<Rightarrow>
                                   (Inl (InternalError err), s1\<lparr>products := ps\<rparr>)
                               | (None, ps) \<Rightarrow>
                                   (let s2 = s1\<lparr>products := ps\<rparr>;
                                        s3 = s2\<lparr>promoCodes :=
                                               recordUsage (req_promoCode checkoutData)
                                                 (promoCodes s2)\<rparr>
                                    in case clearCart cart of
                                         (Some err, _) \<Rightarrow> (Inl (InternalError err), s3)
                                       | (None, cart') \<Rightarrow>
                                           (Inr order,
                                            s3\<lparr>carts := put cart_id cart' (carts s3)\<rparr>)))))))"

text \<open>The validate-only route: the cart is resolved, every line is judged by the same
  test and its problem collected, then the supplied promo code. The reply holds the
  validity flag, the problems and the cart; the store is returned as the route leaves it.\<close>

record validation =
  v_isValid :: bool
  v_errors :: "checkout_error list"
  v_cart :: ICart

definition validateCheckout ::
    "int \<Rightarrow> CheckoutInput \<Rightarrow> store \<Rightarrow> (checkout_error + validation) \<times> store" where
  "validateCheckout now checkoutData s =
     (case findCart (req_cartId checkoutData) now (carts s) of
        None \<Rightarrow> (Inl CartNotFound, s)
      | Some cart \<Rightarrow>
          (let errors1 = List.map_filter (validateLine (products s)) (items cart);
               errors2 =
                 (case supplied (req_promoCode checkoutData) of
                    None \<Rightarrow> errors1
                  | Some c \<Rightarrow>
                      (case findValidPromoCode c (subtotal cart) now (promoCodes s) of
                         None \<Rightarrow> errors1 @ [InvalidPromo]
                       | Some found \<Rightarrow> errors1))
           in (Inr \<lparr>v_isValid = (length errors2 = 0), v_errors = errors2, v_cart = cart\<rparr>, s)))"

text \<open>The reasons for rejecting a line, in the specification's words: its product is
  missing or inactive; or the product is there and active, and the line asks for more than
  the live stock of its variant. A line whose variant the product no longer has is
  rejected like one that asks for too much.\<close>

definition product_unavailable :: "IProduct list \<Rightarrow> ICartItem \<Rightarrow> bool" where
  "product_unavailable ps item =
     (case findById (productId item) ps of
        None \<Rightarrow> True
      | Some p \<Rightarrow> \<not> product_isActive p)"

definition stock_insufficient :: "IProduct list \<Rightarrow> ICartItem \<Rightarrow> bool" where
  "stock_insufficient ps item =
     (case findById (productId item) ps of
        None \<Rightarrow> False
      | Some p \<Rightarrow>
          product_isActive p \<and>
          (case variant_index (variantId item) p of
             None \<Rightarrow> False
           | Some i \<Rightarrow> stock (variants p ! i) < quantity item))"

definition variant_missing :: "IProduct list \<Rightarrow> ICartItem \<Rightarrow> bool" where
  "variant_missing ps item =
     (case findById (productId item) ps of
        None \<Rightarrow> False
      | Some p \<Rightarrow> product_isActive p \<and> variant_index (variantId item) p = None)"

definition line_rejected :: "IProduct list \<Rightarrow> ICartItem \<Rightarrow> bool" where
  "line_rejected ps item =
     (product_unavailable ps item \<or> variant_missing ps item \<or> stock_insufficient ps item)"

text \<open>The live stock of the variant that a line for \<open>(pid, vid)\<close> refers to, if the
  product and the variant exist.\<close>

definition stockOf :: "IProduct list \<Rightarrow> string \<Rightarrow> string \<Rightarrow> real option" where
  "stockOf ps pid vid =
     (case findById pid ps of
        None \<Rightarrow> None
      | Some p \<Rightarrow>
          (case variant_index vid p of
             None \<Rightarrow> None
           | Some i \<Rightarrow> Some (stock (variants p ! i))))"

section \<open>Example documents\<close>

text \<open>A small shop, used to run the operations on concrete inputs: one product with one
  variant, cart lines for it, a line for a product the shop does not have, a fixed promo
  that may be used once, an order.\<close>

definition pid1 :: string where
  "pid1 = ''64b7f00000000000000000a1''"

definition pid1_upper :: string where
  "pid1_upper = ''64B7F00000000000000000A1''"

definition vid1 :: string where
  "vid1 = ''64b7f00000000000000000b1''"

definition line1 :: ICartItem where
  "line1 = \<lparr>productId = pid1, variantId = vid1, quantity = 2, price = 50,
             productName = ''Shirt'', variantName = ''M'', sku = ''SH-M''\<rparr>"

definition line2 :: ICartItem where
  "line2 = \<lparr>productId = pid1, variantId = ''64b7f00000000000000000b2'', quantity = 1, price = 55,
             productName = ''Shirt'', variantName = ''L'', sku = ''SH-L''\<rparr>"

definition line_ghost :: ICartItem where
  "line_ghost = \<lparr>productId = ''64b7f00000000000000000ff'', variantId = vid1, quantity = 1, price = 5,
                  productName = ''Ghost'', variantName = ''S'', sku = ''GH-S''\<rparr>"

definition product1 :: "real \<Rightarrow> bool \<Rightarrow> IProduct" where
  "product1 st act =
     \<lparr>product_id = pid1, product_name = ''Shirt'',
      variants = [\<lparr>variant_id = vid1, variant_name = ''M'', variant_sku = ''SH-M'',
                   variant_price = 50, stock = st\<rparr>],
      product_isActive = act\<rparr>"

definition promo_save10 :: IPromoCode where
  "promo_save10 =
     \<lparr>promo_id = ''pr1'', code = ''SAVE10'', ptype = Fixed, pvalue = 10,
      maxDiscount = None, minOrderAmount = None, validFrom = 0, validTo = 1000,
      maxUses = Some 1, usedCount = 0, isActive = True\<rparr>"

definition promo_zero_cap :: IPromoCode where
  "promo_zero_cap =
     \<lparr>promo_id = ''pr2'', code = ''FLAT5'', ptype = Fixed, pvalue = 5,
      maxDiscount = Some 0, minOrderAmount = None, validFrom = 0, validTo = 1000,
      maxUses = None, usedCount = 0, isActive = True\<rparr>"

definition promo_capped :: IPromoCode where
  "promo_capped =
     \<lparr>promo_id = ''pr3'', code = ''SAVE20'', ptype = Percentage, pvalue = 20,
      maxDiscount = Some 15, minOrderAmount = Some 50, validFrom = 0, validTo = 1000,
      maxUses = Some 1, usedCount = 0, isActive = True\<rparr>"

definition cart1 :: ICart where
  "cart1 = apply_cart_op (AddItem line1) (new_cart ''c1'' ''tok1'' 0)"

definition cart1_promo :: ICart where
  "cart1_promo = apply_cart_op (ApplyPromoCode ''SAVE10'' 10) cart1"

definition cart1_ghost :: ICart where
  "cart1_ghost = apply_cart_op (AddItem line_ghost) cart1"

definition store1 :: "ICart \<Rightarrow> real \<Rightarrow> bool \<Rightarrow> store" where
  "store1 c st act =
     \<lparr>carts = [c], products = [product1 st act], promoCodes = [promo_save10], orders = []\<rparr>"

definition input1 :: "string option \<Rightarrow> CheckoutInput" where
  "input1 pc =
     \<lparr>req_cartId = ''c1'',
      req_customerInfo = \<lparr>email = ''ann@example.org'', firstName = ''Ann'', lastName = ''Lee'',
                          phone = None\<rparr>,
      req_shippingAddress = \<lparr>street = ''1 Main St'', city = ''Dhaka'', state = ''DH'',
                             zipCode = ''1000'', country = ''BD''\<rparr>,
      req_billingAddress = None,
      req_paymentMethod = Stripe,
      req_promoCode = pc\<rparr>"

definition order1 :: IOrder where
  "order1 =
     (newOrder (input1 None) cart1_promo 10)
       \<lparr>orderNumber := ''ORD-1'', status := Delivered, paymentStatus := Refunded,
        trackingNumber := Some ''TRK1'', order_notes := Some ''fragile''\<rparr>"

section \<open>Lists, totals and evaluation\<close>

lemma findIndex_None_iff: "findIndex P xs = None \<longleftrightarrow> (\<forall>x\<in>set xs. \<not> P x)"
  by (induction xs) auto

lemma findIndex_Some_iff:
  "findIndex P xs = Some i \<longleftrightarrow> i < length xs \<and> P (xs ! i) \<and> (\<forall>j<i. \<not> P (xs ! j))"
proof (induction xs arbitrary: i)
  case Nil
  then show ?case by simp
next
  case (Cons x xs)
  show ?case
  proof (cases "P x")
    case True
    then show ?thesis by (cases i) auto
  next
    case False
    show ?thesis
    proof (cases i)
      case 0
      with False show ?thesis by auto
    next
      case (Suc k)
      have "(\<forall>j<Suc k. \<not> P ((x # xs) ! j)) \<longleftrightarrow> (\<forall>j<k. \<not> P (xs ! j))"
        using False by (auto simp: less_Suc_eq_0_disj)
      with False Suc Cons.IH [of k] show ?thesis by auto
    qed
  qed
qed

lemma foldl_line_sum:
  "foldl (\<lambda>sum item. sum + price item * quantity item) a xs = a + line_sum xs"
  by (induction xs arbitrary: a) (simp_all add: line_sum_def)

lemma calculateTotals_eq:
  "calculateTotals c =
     c\<lparr>subtotal := line_sum (items c), total := line_sum (items c) - discount c\<rparr>"
  by (simp add: calculateTotals_def Let_def foldl_line_sum)

lemma calculateTotals_idem: "calculateTotals (calculateTotals c) = calculateTotals c"
  by (simp add: calculateTotals_eq)

lemma same_line_key: "same_line pid vid item \<longleftrightarrow> line_key item = (pid, vid)"
  by (auto simp: same_line_def line_key_def)

lemma stored_cart_iff:
  "stored_cart c \<longleftrightarrow>
     cartSchema_ok c \<and> subtotal c = line_sum (items c) \<and> total c = subtotal c - discount c"
  by (cases c) (auto simp: stored_cart_def calculateTotals_eq)

lemma save_calculateTotals:
  "save (calculateTotals x) =
     (if cartSchema_ok (calculateTotals x) then (None, calculateTotals x)
      else (Some ''Cart validation failed'', calculateTotals x))"
  by (simp add: save_def calculateTotals_idem)

lemma save_None_stored:
  "save (calculateTotals x) = (None, c') \<Longrightarrow> c' = calculateTotals x \<and> stored_cart c'"
  by (auto simp: save_calculateTotals stored_cart_def calculateTotals_idem split: if_splits)

lemma stored_cart_invariant: "stored_cart c \<Longrightarrow> spec_cart_invariant c"
  by (simp add: stored_cart_iff spec_cart_invariant_def cartSchema_ok_def)

lemma new_cart_stored: "tok \<noteq> [] \<Longrightarrow> stored_cart (new_cart cid tok now)"
  by (simp add: stored_cart_iff new_cart_def calculateTotals_eq cartSchema_ok_def line_sum_def)

lemmas cart_eval = call_cart_op_def apply_cart_op_def addItem_def updateItemQuantity_def
  removeItem_def clearCart_def applyPromoCode_def removePromoCode_def save_def
  calculateTotals_def cartSchema_ok_def cartItemSchema_ok_def same_line_def splice1_def
  ObjectId_def hex_digit_def lower_hex_def Let_def

lemmas example_ids = pid1_def pid1_upper_def vid1_def line1_def line2_def line_ghost_def

lemma new_cart_eq:
  "new_cart ''c1'' ''tok1'' 0 =
     \<lparr>cart_id = ''c1'', token = ''tok1'', items = [], promoCode = None, subtotal = 0,
      discount = 0, total = 0, expiresAt = 604800000\<rparr>"
  by (simp add: new_cart_def calculateTotals_def)

lemma cart1_eq:
  "cart1 = \<lparr>cart_id = ''c1'', token = ''tok1'', items = [line1], promoCode = None,
             subtotal = 100, discount = 0, total = 100, expiresAt = 604800000\<rparr>"
  by (simp add: cart1_def new_cart_eq cart_eval example_ids)

lemma cart1_promo_eq:
  "cart1_promo = \<lparr>cart_id = ''c1'', token = ''tok1'', items = [line1],
                   promoCode = Some ''SAVE10'', subtotal = 100, discount = 10, total = 90,
                   expiresAt = 604800000\<rparr>"
  by (simp add: cart1_promo_def cart1_eq cart_eval example_ids)

lemma cart1_ghost_eq:
  "cart1_ghost = \<lparr>cart_id = ''c1'', token = ''tok1'', items = [line1, line_ghost],
                   promoCode = None, subtotal = 105, discount = 0, total = 105,
                   expiresAt = 604800000\<rparr>"
  by (simp add: cart1_ghost_def cart1_eq cart_eval example_ids)

section \<open>The cart ledger\<close>

lemma addItem_existing:
  assumes "findIndex (same_line (productId d) (variantId d)) (items c) = Some i"
  shows "addItem d c =
     save (calculateTotals (c\<lparr>items := (items c)[i :=
       (items c ! i)\<lparr>quantity := quantity (items c ! i) + quantity d\<rparr>]\<rparr>))"
  using assms by (simp add: addItem_def)

lemma addItem_absent:
  assumes "findIndex (same_line (productId d) (variantId d)) (items c) = None"
    and "ObjectId (productId d) = Some oid"
  shows "addItem d c = save (calculateTotals (c\<lparr>items := items c @ [d\<lparr>productId := oid\<rparr>]\<rparr>))"
  using assms by (simp add: addItem_def)

lemma updateItemQuantity_absent:
  "findIndex (same_line pid vid) (items c) = None \<Longrightarrow>
   updateItemQuantity pid vid q c = (Some ''Item not found in cart'', c)"
  by (simp add: updateItemQuantity_def)

lemma updateItemQuantity_found:
  "findIndex (same_line pid vid) (items c) = Some i \<Longrightarrow>
   updateItemQuantity pid vid q c =
     save (calculateTotals (c\<lparr>items := (if q \<le> 0 then splice1 i (items c)
                                         else (items c)[i := (items c ! i)\<lparr>quantity := q\<rparr>])\<rparr>))"
  by (simp add: updateItemQuantity_def if_distrib [of "\<lambda>x. save (calculateTotals x)"] cong: if_cong)

lemma call_cart_op_stored:
  assumes "call_cart_op op c = (None, c')"
  shows "stored_cart c'"
proof (cases op)
  case (AddItem d)
  show ?thesis
  proof (cases "findIndex (same_line (productId d) (variantId d)) (items c)")
    case (Some i)
    with assms AddItem show ?thesis
      by (auto simp: call_cart_op_def addItem_existing dest: save_None_stored)
  next
    case None
    with assms AddItem show ?thesis
      by (cases "ObjectId (productId d)")
         (auto simp: call_cart_op_def addItem_def dest: save_None_stored)
  qed
next
  case (UpdateItemQuantity pid vid q)
  show ?thesis
  proof (cases "findIndex (same_line pid vid) (items c)")
    case None
    with assms UpdateItemQuantity show ?thesis
      by (simp add: call_cart_op_def updateItemQuantity_absent)
  next
    case (Some i)
    with assms UpdateItemQuantity show ?thesis
      by (auto simp: call_cart_op_def updateItemQuantity_found dest: save_None_stored)
  qed
next
  case (RemoveItem pid vid)
  with assms show ?thesis
    by (auto simp: call_cart_op_def removeItem_def dest: save_None_stored)
next
  case (ApplyPromoCode pc d)
  with assms show ?thesis
    by (auto simp: call_cart_op_def applyPromoCode_def dest: save_None_stored)
next
  case RemovePromoCode
  with assms show ?thesis
    by (auto simp: call_cart_op_def removePromoCode_def dest: save_None_stored)
next
  case ClearCart
  with assms show ?thesis
    by (auto simp: call_cart_op_def clearCart_def dest: save_None_stored)
qed

lemma apply_cart_op_stored: "stored_cart c \<Longrightarrow> stored_cart (apply_cart_op op c)"
proof -
  assume s: "stored_cart c"
  obtain e c' where r: "call_cart_op op c = (e, c')" by (cases "call_cart_op op c")
  show ?thesis
  proof (cases e)
    case None
    with r call_cart_op_stored [of op c c'] show ?thesis by (simp add: apply_cart_op_def)
  next
    case (Some err)
    with r s show ?thesis by (simp add: apply_cart_op_def)
  qed
qed

lemma run_cart_ops_stored: "stored_cart c \<Longrightarrow> stored_cart (run_cart_ops ops c)"
  unfolding run_cart_ops_def
  by (induction ops arbitrary: c) (simp_all add: apply_cart_op_stored)

lemma line_sum_append: "line_sum (xs @ ys) = line_sum xs + line_sum ys"
  by (simp add: line_sum_def)

lemma line_sum_update:
  "i < length xs \<Longrightarrow>
   line_sum (xs[i := (xs ! i)\<lparr>quantity := q\<rparr>])
     = line_sum xs + price (xs ! i) * (q - quantity (xs ! i))"
proof (induction xs arbitrary: i)
  case Nil
  then show ?case by simp
next
  case (Cons x xs)
  show ?case
  proof (cases i)
    case 0
    then show ?thesis by (simp add: line_sum_def algebra_simps)
  next
    case (Suc k)
    with Cons.prems Cons.IH [of k] show ?thesis by (simp add: line_sum_def)
  qed
qed

lemma items_ok_update:
  "list_all cartItemSchema_ok xs \<Longrightarrow> i < length xs \<Longrightarrow> 1 \<le> q \<Longrightarrow>
   list_all cartItemSchema_ok (xs[i := (xs ! i)\<lparr>quantity := q\<rparr>])"
  by (auto simp: list_all_iff cartItemSchema_ok_def dest!: set_update_subset_insert [THEN subsetD])


lemma map_key_update:
  "i < length xs \<Longrightarrow> map line_key (xs[i := (xs ! i)\<lparr>quantity := q\<rparr>]) = map line_key xs"
  by (simp add: list_eq_iff_nth_eq nth_list_update line_key_def)


lemma save_passes:
  "fst (save (calculateTotals x)) = None \<Longrightarrow> snd (save (calculateTotals x)) = calculateTotals x"
  by (simp add: save_calculateTotals split: if_splits)

lemma save_passes_iff:
  "fst (save (calculateTotals x)) = None \<longleftrightarrow> cartSchema_ok (calculateTotals x)"
  by (simp add: save_calculateTotals)

text \<open>addItem: what a saved call has done, and when the save passes.\<close>

lemma addItem_saved:
  assumes ok: "fst (addItem d c) = None"
  shows "(\<forall>i. i < length (items c) \<and> same_line (productId d) (variantId d) (items c ! i)
        \<and> (\<forall>j<i. \<not> same_line (productId d) (variantId d) (items c ! j)) \<longrightarrow>
      items (snd (addItem d c)) =
        (items c)[i := (items c ! i)\<lparr>quantity := quantity (items c ! i) + quantity d\<rparr>])
   \<and> ((\<forall>l\<in>set (items c). \<not> same_line (productId d) (variantId d) l) \<longrightarrow>
        (\<exists>oid. ObjectId (productId d) = Some oid
           \<and> items (snd (addItem d c)) = items c @ [d\<lparr>productId := oid\<rparr>]))
   \<and> subtotal (snd (addItem d c)) = line_sum (items (snd (addItem d c)))
   \<and> total (snd (addItem d c)) = subtotal (snd (addItem d c)) - discount (snd (addItem d c))
   \<and> discount (snd (addItem d c)) = discount c"
proof (cases "findIndex (same_line (productId d) (variantId d)) (items c)")
  case (Some i)
  then have m: "\<exists>l\<in>set (items c). same_line (productId d) (variantId d) l"
    using findIndex_None_iff [of "same_line (productId d) (variantId d)" "items c"] by auto
  have u: "\<And>k. k < length (items c) \<and> same_line (productId d) (variantId d) (items c ! k)
        \<and> (\<forall>j<k. \<not> same_line (productId d) (variantId d) (items c ! j)) \<Longrightarrow> k = i"
    using Some by (simp add: findIndex_Some_iff [symmetric])
  from ok have "snd (addItem d c) = calculateTotals (c\<lparr>items := (items c)[i :=
       (items c ! i)\<lparr>quantity := quantity (items c ! i) + quantity d\<rparr>]\<rparr>)"
    unfolding addItem_existing [OF Some] by (rule save_passes)
  with m u show ?thesis by (auto simp: calculateTotals_eq)
next
  case None
  then have n: "\<forall>l\<in>set (items c). \<not> same_line (productId d) (variantId d) l"
    by (simp add: findIndex_None_iff)
  from ok None obtain oid where o: "ObjectId (productId d) = Some oid"
    by (cases "ObjectId (productId d)") (simp_all add: addItem_def)
  from ok have "snd (addItem d c) = calculateTotals (c\<lparr>items := items c @ [d\<lparr>productId := oid\<rparr>]\<rparr>)"
    unfolding addItem_absent [OF None o] by (rule save_passes)
  with n o show ?thesis
    by (auto simp: calculateTotals_eq dest: nth_mem)
qed

lemma addItem_succeeds:
  assumes s: "stored_cart c" and d: "cartItemSchema_ok d"
    and o: "ObjectId (productId d) \<noteq> None"
  shows "fst (addItem d c) = None"
proof -
  from s have c: "cartSchema_ok c" "subtotal c = line_sum (items c)"
      "total c = subtotal c - discount c"
    by (simp_all add: stored_cart_iff)
  then have b: "token c \<noteq> []" "list_all cartItemSchema_ok (items c)" "0 \<le> discount c"
      "discount c \<le> line_sum (items c)"
    by (simp_all add: cartSchema_ok_def)
  from d have q: "1 \<le> quantity d" "0 \<le> price d" by (simp_all add: cartItemSchema_ok_def)
  show ?thesis
  proof (cases "findIndex (same_line (productId d) (variantId d)) (items c)")
    case (Some i)
    then have i: "i < length (items c)" by (simp add: findIndex_Some_iff)
    with b(2) have li: "cartItemSchema_ok (items c ! i)" by (simp add: list_all_length)
    then have "1 \<le> quantity (items c ! i) + quantity d" "0 \<le> price (items c ! i)"
      using q by (simp_all add: cartItemSchema_ok_def)
    moreover have "0 \<le> price (items c ! i) * quantity d"
      using li q by (simp add: cartItemSchema_ok_def)
    ultimately have "cartSchema_ok (calculateTotals (c\<lparr>items := (items c)[i :=
       (items c ! i)\<lparr>quantity := quantity (items c ! i) + quantity d\<rparr>]\<rparr>))"
      using b i by (simp add: cartSchema_ok_def calculateTotals_eq items_ok_update line_sum_update)
    then show ?thesis unfolding addItem_existing [OF Some] by (simp only: save_passes_iff)
  next
    case None
    from o obtain oid where oid: "ObjectId (productId d) = Some oid" by auto
    have "cartItemSchema_ok (d\<lparr>productId := oid\<rparr>)" using d by (simp add: cartItemSchema_ok_def)
    moreover have "0 \<le> price d * quantity d" using q by simp
    ultimately have "cartSchema_ok (calculateTotals (c\<lparr>items := items c @ [d\<lparr>productId := oid\<rparr>]\<rparr>))"
      using b by (simp add: cartSchema_ok_def calculateTotals_eq line_sum_append line_sum_def)
    then show ?thesis unfolding addItem_absent [OF None oid] by (simp only: save_passes_iff)
  qed
qed

lemma addItem_canonical_one_line_per_pair:
  assumes "fst (addItem d c) = None" "ObjectId (productId d) = Some (productId d)"
    "distinct (map line_key (items c))"
  shows "distinct (map line_key (items (snd (addItem d c))))"
proof (cases "findIndex (same_line (productId d) (variantId d)) (items c)")
  case (Some i)
  then have i: "i < length (items c)" by (simp add: findIndex_Some_iff)
  from assms(1) have "snd (addItem d c) = calculateTotals (c\<lparr>items := (items c)[i :=
       (items c ! i)\<lparr>quantity := quantity (items c ! i) + quantity d\<rparr>]\<rparr>)"
    unfolding addItem_existing [OF Some] by (rule save_passes)
  then have "items (snd (addItem d c)) = (items c)[i :=
       (items c ! i)\<lparr>quantity := quantity (items c ! i) + quantity d\<rparr>]"
    by (simp add: calculateTotals_eq)
  with i assms(3) show ?thesis by (simp add: map_key_update)
next
  case None
  then have n: "\<forall>l\<in>set (items c). line_key l \<noteq> (productId d, variantId d)"
    by (simp add: findIndex_None_iff same_line_key)
  from assms(1) have "snd (addItem d c)
      = calculateTotals (c\<lparr>items := items c @ [d\<lparr>productId := productId d\<rparr>]\<rparr>)"
    unfolding addItem_absent [OF None assms(2)] by (rule save_passes)
  then have "items (snd (addItem d c)) = items c @ [d]"
    by (simp add: calculateTotals_eq)
  with n assms(3) show ?thesis by (auto simp: line_key_def)
qed


text \<open>
  Claim C7. \<^verbatim>\<open>addItem\<close> called twice for the same product and variant should leave one
  line with the two quantities added, never two lines. The search for the line compares
  \<^verbatim>\<open>item.productId.toString()\<close>, which is lower-case hexadecimal, with the string of the
  request as it came, while a new line is stored under \<^verbatim>\<open>new ObjectId\<close> of that string.
  A product identifier written with upper-case digits names the same product and is
  accepted (the first call stores the line of \<^term>\<open>cart1\<close> for it), but it never equals
  a stored identifier: the second call, on a cart that holds the line for the pair with
  quantity 2, is saved with a second line of quantity 2, where one line of quantity 4 is
  specified. With the identifier in lower case the same two calls give that one line.
\<close>

theorem addItem_upper_case_id_adds_second_line:
  "ObjectId pid1_upper = Some pid1
   \<and> cartItemSchema_ok (line1\<lparr>productId := pid1_upper\<rparr>)
   \<and> call_cart_op (AddItem (line1\<lparr>productId := pid1_upper\<rparr>)) (new_cart ''c1'' ''tok1'' 0)
       = (None, cart1)
   \<and> items cart1 = [line1]
   \<and> call_cart_op (AddItem (line1\<lparr>productId := pid1_upper\<rparr>)) cart1
       = (None, cart1\<lparr>items := [line1, line1], subtotal := 200, total := 200\<rparr>)
   \<and> items (run_cart_ops [AddItem (line1\<lparr>productId := pid1_upper\<rparr>),
                          AddItem (line1\<lparr>productId := pid1_upper\<rparr>)]
              (new_cart ''c1'' ''tok1'' 0))
       = [line1, line1]
   \<and> items (run_cart_ops [AddItem line1, AddItem line1] (new_cart ''c1'' ''tok1'' 0))
       = [line1\<lparr>quantity := 4\<rparr>]"
  by (simp add: run_cart_ops_def cart1_eq new_cart_eq cart_eval example_ids)




text \<open>
  Claim C1. A cart in the store has passed a save: it is within the bounds of its schema
  and its totals are the computed ones (\<^term>\<open>stored_cart\<close>); the cart that
  \<^verbatim>\<open>createOrGetCart\<close> makes is such a cart. Each of the six operations ends with
  \<^verbatim>\<open>this.save()\<close>, and a call that throws leaves the stored cart as it was. Hence
  after any sequence of the operations, with any arguments, the stored cart is again such a
  cart and satisfies the invariant as the specification words it: the subtotal is the sum
  of price times quantity over the lines, the total is the subtotal less the discount, and
  the discount lies between 0 and the subtotal. The upper bound comes from the schema's
  \<^verbatim>\<open>min: 0\<close> on the total: removing the only line of a cart that carries a discount is
  refused by the save, and the stored cart keeps the line.
\<close>

theorem cart_invariant_after_any_operations:
  "(tok \<noteq> [] \<longrightarrow> stored_cart (new_cart cid tok now))
   \<and> (stored_cart c \<longrightarrow>
        stored_cart (run_cart_ops ops c)
        \<and> spec_cart_invariant (run_cart_ops ops c)
        \<and> subtotal (run_cart_ops ops c) = line_sum (items (run_cart_ops ops c))
        \<and> total (run_cart_ops ops c)
            = subtotal (run_cart_ops ops c) - discount (run_cart_ops ops c)
        \<and> 0 \<le> discount (run_cart_ops ops c)
        \<and> discount (run_cart_ops ops c) \<le> subtotal (run_cart_ops ops c))"
proof -
  have a: "tok \<noteq> [] \<longrightarrow> stored_cart (new_cart cid tok now)"
    by (simp add: new_cart_stored)
  have b: "stored_cart c \<longrightarrow>
        stored_cart (run_cart_ops ops c) \<and> spec_cart_invariant (run_cart_ops ops c)"
    using run_cart_ops_stored [of c ops] stored_cart_invariant [of "run_cart_ops ops c"]
    by blast
  have c: "spec_cart_invariant (run_cart_ops ops c) \<longrightarrow>
        subtotal (run_cart_ops ops c) = line_sum (items (run_cart_ops ops c))
        \<and> total (run_cart_ops ops c)
            = subtotal (run_cart_ops ops c) - discount (run_cart_ops ops c)
        \<and> 0 \<le> discount (run_cart_ops ops c)
        \<and> discount (run_cart_ops ops c) \<le> subtotal (run_cart_ops ops c)"
    unfolding spec_cart_invariant_def by (rule impI)
  from a b c show ?thesis by blast
qed

theorem cart_invariant_after_any_operations_witness:
  "stored_cart (new_cart ''c1'' ''tok1'' 0)
   \<and> run_cart_ops [AddItem line1, ApplyPromoCode ''SAVE10'' 10, RemoveItem pid1 vid1]
        (new_cart ''c1'' ''tok1'' 0)
      = \<lparr>cart_id = ''c1'', token = ''tok1'', items = [line1], promoCode = Some ''SAVE10'',
          subtotal = 100, discount = 10, total = 90, expiresAt = 604800000\<rparr>
   \<and> spec_cart_invariant
        (run_cart_ops [AddItem line1, ApplyPromoCode ''SAVE10'' 10, RemoveItem pid1 vid1]
           (new_cart ''c1'' ''tok1'' 0))"
proof -
  let ?ops = "[AddItem line1, ApplyPromoCode ''SAVE10'' 10, RemoveItem pid1 vid1]"
  note t = cart_invariant_after_any_operations
    [where tok = "''tok1''" and cid = "''c1''" and now = 0
       and c = "new_cart ''c1'' ''tok1'' 0" and ops = ?ops]
  have n: "''tok1'' \<noteq> []" by simp
  have s: "stored_cart (new_cart ''c1'' ''tok1'' 0)"
    using t [THEN conjunct1] n by (rule mp)
  have i: "spec_cart_invariant (run_cart_ops ?ops (new_cart ''c1'' ''tok1'' 0))"
    using t [THEN conjunct2, THEN mp, OF s] by (elim conjE)
  have r: "run_cart_ops ?ops (new_cart ''c1'' ''tok1'' 0)
      = \<lparr>cart_id = ''c1'', token = ''tok1'', items = [line1], promoCode = Some ''SAVE10'',
          subtotal = 100, discount = 10, total = 90, expiresAt = 604800000\<rparr>"
    by (simp add: run_cart_ops_def new_cart_eq cart_eval example_ids)
  from s r i show ?thesis by simp
qed

section \<open>The promo engine\<close>

lemmas promo_eval = calculateDiscount_def isValid_def truthy_num_def spec_calculateDiscount_def
  spec_isValid_def spec_raw_discount_def zeros_unset_def zero_unset_def at_least_def

text \<open>
  Claim C4, as stated: \<^verbatim>\<open>calculateDiscount\<close> caps the raw discount by \<^verbatim>\<open>maxDiscount\<close>
  whenever \<^verbatim>\<open>maxDiscount\<close> is set. The code tests \<^verbatim>\<open>if (this.maxDiscount)\<close>, so a cap
  of 0, which the schema's \<^verbatim>\<open>min: 0\<close> admits, is skipped: a valid fixed promo of 5 with
  cap 0 on a subtotal of 100 gives 5, where the stated rule gives 0.
\<close>

theorem calculateDiscount_zero_cap_counterexample:
  "promoCodeSchema_ok promo_zero_cap
   \<and> fst (calculateDiscount 100 50 promo_zero_cap) = 5
   \<and> spec_calculateDiscount promo_zero_cap 100 50 = 0"
  by (simp add: promo_zero_cap_def promo_eval promoCodeSchema_ok_def)

text \<open>
  Claim C4, amended. For a promo within the bounds of its schema and an amount that is not
  negative, \<^verbatim>\<open>calculateDiscount\<close> is the specified function with one change: the cap
  applies whenever \<^verbatim>\<open>maxDiscount\<close> is set and not 0 (a cap of 0 counts as no cap); and
  the result lies between 0 and the amount. Without the bounds, it is the specified
  function on the promo in which a \<^verbatim>\<open>maxUses\<close>, \<^verbatim>\<open>minOrderAmount\<close> or
  \<^verbatim>\<open>maxDiscount\<close> of 0 counts as unset, hence the specified function itself when none of
  the three is 0; and the result lies between 0 and the amount as soon as the amount and
  the value are not negative and the cap is not negative.
\<close>

theorem calculateDiscount_zero_as_unset:
  "(promoCodeSchema_ok p \<and> 0 \<le> amount \<longrightarrow>
      fst (calculateDiscount amount now p)
        = spec_calculateDiscount (p\<lparr>maxDiscount := zero_unset (maxDiscount p)\<rparr>) amount now
      \<and> 0 \<le> fst (calculateDiscount amount now p)
      \<and> fst (calculateDiscount amount now p) \<le> amount)
   \<and> fst (calculateDiscount amount now p) = spec_calculateDiscount (zeros_unset p) amount now
   \<and> (maxUses p \<noteq> Some 0 \<and> minOrderAmount p \<noteq> Some 0 \<and> maxDiscount p \<noteq> Some 0 \<longrightarrow>
        fst (calculateDiscount amount now p) = spec_calculateDiscount p amount now)
   \<and> (0 \<le> amount \<and> 0 \<le> pvalue p \<and> at_least 0 (maxDiscount p) \<longrightarrow>
        0 \<le> fst (calculateDiscount amount now p)
        \<and> fst (calculateDiscount amount now p) \<le> amount)"
proof -
  have a: "fst (calculateDiscount amount now p)
      = spec_calculateDiscount (zeros_unset p) amount now"
    by (cases "ptype p") (auto simp: promo_eval Let_def split: option.splits)
  have z: "maxUses p \<noteq> Some 0 \<and> minOrderAmount p \<noteq> Some 0 \<and> maxDiscount p \<noteq> Some 0
      \<longrightarrow> zeros_unset p = p"
    by (auto simp: zeros_unset_def zero_unset_def truthy_num_def split: option.splits)
  have c: "0 \<le> amount \<and> 0 \<le> pvalue p \<and> at_least 0 (maxDiscount p) \<longrightarrow>
        0 \<le> fst (calculateDiscount amount now p)
        \<and> fst (calculateDiscount amount now p) \<le> amount"
    by (auto simp: promo_eval Let_def split: option.splits)
  have b: "promoCodeSchema_ok p \<and> 0 \<le> amount \<longrightarrow>
      spec_calculateDiscount (zeros_unset p) amount now
        = spec_calculateDiscount (p\<lparr>maxDiscount := zero_unset (maxDiscount p)\<rparr>) amount now"
    by (cases "ptype p") (auto simp: promoCodeSchema_ok_def promo_eval split: option.splits)
  have s: "promoCodeSchema_ok p \<longrightarrow> 0 \<le> pvalue p \<and> at_least 0 (maxDiscount p)"
    by (simp add: promoCodeSchema_ok_def)
  have d: "promoCodeSchema_ok p \<and> 0 \<le> amount \<longrightarrow>
      fst (calculateDiscount amount now p)
        = spec_calculateDiscount (p\<lparr>maxDiscount := zero_unset (maxDiscount p)\<rparr>) amount now
      \<and> 0 \<le> fst (calculateDiscount amount now p)
      \<and> fst (calculateDiscount amount now p) \<le> amount"
  proof
    assume h: "promoCodeSchema_ok p \<and> 0 \<le> amount"
    with b have e1: "spec_calculateDiscount (zeros_unset p) amount now
        = spec_calculateDiscount (p\<lparr>maxDiscount := zero_unset (maxDiscount p)\<rparr>) amount now"
      by (rule mp)
    from h s have "0 \<le> amount \<and> 0 \<le> pvalue p \<and> at_least 0 (maxDiscount p)" by blast
    with c have r: "0 \<le> fst (calculateDiscount amount now p)
        \<and> fst (calculateDiscount amount now p) \<le> amount"
      by (rule mp)
    have "fst (calculateDiscount amount now p)
        = spec_calculateDiscount (p\<lparr>maxDiscount := zero_unset (maxDiscount p)\<rparr>) amount now"
      using a e1 by (rule trans)
    with r show "fst (calculateDiscount amount now p)
        = spec_calculateDiscount (p\<lparr>maxDiscount := zero_unset (maxDiscount p)\<rparr>) amount now
      \<and> 0 \<le> fst (calculateDiscount amount now p)
      \<and> fst (calculateDiscount amount now p) \<le> amount"
      by (rule conjI [rotated])
  qed
  from a z have e: "maxUses p \<noteq> Some 0 \<and> minOrderAmount p \<noteq> Some 0 \<and> maxDiscount p \<noteq> Some 0
      \<longrightarrow> fst (calculateDiscount amount now p) = spec_calculateDiscount p amount now"
    by simp
  from d a e c show ?thesis by (intro conjI)
qed

theorem calculateDiscount_zero_as_unset_witness:
  "promoCodeSchema_ok promo_capped \<and> promoCodeSchema_ok promo_zero_cap
   \<and> fst (calculateDiscount 100 50 promo_capped) = 15
   \<and> spec_calculateDiscount promo_capped 100 50 = 15
   \<and> fst (calculateDiscount 10 50 promo_capped) = 0
   \<and> fst (calculateDiscount 100 50 promo_zero_cap) = 5
   \<and> spec_calculateDiscount (promo_zero_cap\<lparr>maxDiscount := None\<rparr>) 100 50 = 5"
proof -
  have ok: "promoCodeSchema_ok promo_capped" "promoCodeSchema_ok promo_zero_cap"
    by (simp_all add: promoCodeSchema_ok_def promo_capped_def promo_zero_cap_def at_least_def)
  have z: "promo_capped\<lparr>maxDiscount := zero_unset (maxDiscount promo_capped)\<rparr> = promo_capped"
      "promo_zero_cap\<lparr>maxDiscount := zero_unset (maxDiscount promo_zero_cap)\<rparr>
         = promo_zero_cap\<lparr>maxDiscount := None\<rparr>"
    by (simp_all add: promo_capped_def promo_zero_cap_def zero_unset_def truthy_num_def)
  have n: "(0::real) \<le> 100" "(0::real) \<le> 10" by simp_all
  note t1 = calculateDiscount_zero_as_unset
    [where p = promo_capped and amount = 100 and now = 50, THEN conjunct1, THEN mp,
     OF conjI [OF ok(1) n(1)], THEN conjunct1]
  note t2 = calculateDiscount_zero_as_unset
    [where p = promo_capped and amount = 10 and now = 50, THEN conjunct1, THEN mp,
     OF conjI [OF ok(1) n(2)], THEN conjunct1]
  note t3 = calculateDiscount_zero_as_unset
    [where p = promo_zero_cap and amount = 100 and now = 50, THEN conjunct1, THEN mp,
     OF conjI [OF ok(2) n(1)], THEN conjunct1]
  have v1: "spec_calculateDiscount promo_capped 100 50 = 15"
    by (simp add: promo_capped_def promo_eval)
  have v2: "spec_calculateDiscount promo_capped 10 50 = 0"
    by (simp add: promo_capped_def promo_eval)
  have v3: "spec_calculateDiscount (promo_zero_cap\<lparr>maxDiscount := None\<rparr>) 100 50 = 5"
    by (simp add: promo_zero_cap_def promo_eval)
  from t1 t2 t3 show ?thesis unfolding z using ok v1 v2 v3 by simp
qed

text \<open>
  Claim C5. \<^verbatim>\<open>calculateDiscount\<close> (and \<^verbatim>\<open>isValid\<close>, which it calls) leaves the promo
  document as it found it, and a second call with the same amount and the same time on
  the document the first call returns gives the same result.
\<close>

theorem calculateDiscount_pure:
  "snd (isValid now p) = p
   \<and> snd (calculateDiscount amount now p) = p
   \<and> (case calculateDiscount amount now p of (r1, p1) \<Rightarrow>
        case calculateDiscount amount now p1 of (r2, p2) \<Rightarrow> r1 = r2 \<and> p1 = p \<and> p2 = p)"
  by (simp add: calculateDiscount_def isValid_def Let_def split: prod.splits)

theorem calculateDiscount_pure_witness:
  "calculateDiscount 100 50 promo_capped = (15, promo_capped)
   \<and> calculateDiscount 100 50 (snd (calculateDiscount 100 50 promo_capped)) = (15, promo_capped)"
proof -
  note t = calculateDiscount_pure [of 50 promo_capped 100]
  have r: "fst (calculateDiscount 100 50 promo_capped) = 15"
    by (simp add: promo_capped_def promo_eval)
  have s: "snd (calculateDiscount 100 50 promo_capped) = promo_capped"
    using t by (rule conjunct2 [THEN conjunct1])
  from r s show ?thesis by (simp add: prod_eq_iff)
qed

section \<open>The order lifecycle\<close>

text \<open>
  Claim C9. \<^verbatim>\<open>updateStatus\<close> and \<^verbatim>\<open>updatePaymentStatus\<close> have no failing branch and
  do not look at the current status: for every order and every new value, the first sets
  the status (and a non-empty tracking number or note given with it) and the second sets
  the payment status; the items, subtotal, discount, total, promo code and the other
  status field are as before, so no total is recomputed.
\<close>

theorem order_status_updates_frame:
  "updateStatus st tn nt ord =
     ord\<lparr>status := st,
         trackingNumber := (if truthy_str tn then tn else trackingNumber ord),
         order_notes := (if truthy_str nt then nt else order_notes ord)\<rparr>
   \<and> status (updateStatus st tn nt ord) = st
   \<and> paymentStatus (updateStatus st tn nt ord) = paymentStatus ord
   \<and> order_items (updateStatus st tn nt ord) = order_items ord
   \<and> order_subtotal (updateStatus st tn nt ord) = order_subtotal ord
   \<and> order_discount (updateStatus st tn nt ord) = order_discount ord
   \<and> order_total (updateStatus st tn nt ord) = order_total ord
   \<and> order_promoCode (updateStatus st tn nt ord) = order_promoCode ord
   \<and> updatePaymentStatus ps ord = ord\<lparr>paymentStatus := ps\<rparr>
   \<and> paymentStatus (updatePaymentStatus ps ord) = ps
   \<and> status (updatePaymentStatus ps ord) = status ord
   \<and> order_items (updatePaymentStatus ps ord) = order_items ord
   \<and> order_subtotal (updatePaymentStatus ps ord) = order_subtotal ord
   \<and> order_discount (updatePaymentStatus ps ord) = order_discount ord
   \<and> order_total (updatePaymentStatus ps ord) = order_total ord
   \<and> order_promoCode (updatePaymentStatus ps ord) = order_promoCode ord"
  by (simp add: updateStatus_def updatePaymentStatus_def Let_def)

text \<open>
  Claim C10. \<^verbatim>\<open>updateStatus\<close> called without a tracking number, or with the empty
  string, leaves the order's tracking number as it was, and likewise for the notes; so a
  value that is present is never cleared. A non-empty argument replaces the value.
\<close>

theorem updateStatus_never_clears:
  "((tn = None \<or> tn = Some []) \<longrightarrow>
      trackingNumber (updateStatus st tn nt ord) = trackingNumber ord)
   \<and> ((nt = None \<or> nt = Some []) \<longrightarrow>
      order_notes (updateStatus st tn nt ord) = order_notes ord)
   \<and> (trackingNumber ord \<noteq> None \<longrightarrow> trackingNumber (updateStatus st tn nt ord) \<noteq> None)
   \<and> (order_notes ord \<noteq> None \<longrightarrow> order_notes (updateStatus st tn nt ord) \<noteq> None)
   \<and> ((\<exists>t. tn = Some t \<and> t \<noteq> []) \<longrightarrow> trackingNumber (updateStatus st tn nt ord) = tn)
   \<and> ((\<exists>n. nt = Some n \<and> n \<noteq> []) \<longrightarrow> order_notes (updateStatus st tn nt ord) = nt)"
  by (auto simp: updateStatus_def Let_def truthy_str_def split: option.splits)

theorem updateStatus_never_clears_witness:
  "trackingNumber order1 = Some ''TRK1'' \<and> order_notes order1 = Some ''fragile''
   \<and> trackingNumber (updateStatus Shipped None (Some []) order1) = Some ''TRK1''
   \<and> order_notes (updateStatus Shipped None (Some []) order1) = Some ''fragile''
   \<and> trackingNumber (updateStatus Shipped (Some ''TRK2'') (Some ''left at door'') order1)
       = Some ''TRK2''
   \<and> order_notes (updateStatus Shipped (Some ''TRK2'') (Some ''left at door'') order1)
       = Some ''left at door''"
proof -
  have o: "trackingNumber order1 = Some ''TRK1''" "order_notes order1 = Some ''fragile''"
    by (simp_all add: order1_def)
  note t1 = updateStatus_never_clears
    [where tn = None and nt = "Some []" and st = Shipped and ord = order1]
  note t2 = updateStatus_never_clears
    [where tn = "Some ''TRK2''" and nt = "Some ''left at door''" and st = Shipped
       and ord = order1]
  have a: "trackingNumber (updateStatus Shipped None (Some []) order1) = trackingNumber order1"
    using t1 [THEN conjunct1] by simp
  have b: "order_notes (updateStatus Shipped None (Some []) order1) = order_notes order1"
    using t1 [THEN conjunct2, THEN conjunct1] by simp
  have c: "trackingNumber (updateStatus Shipped (Some ''TRK2'') (Some ''left at door'') order1)
      = Some ''TRK2''"
    using t2 [THEN conjunct2, THEN conjunct2, THEN conjunct2, THEN conjunct2, THEN conjunct1]
    by simp
  have d: "order_notes (updateStatus Shipped (Some ''TRK2'') (Some ''left at door'') order1)
      = Some ''left at door''"
    using t2 [THEN conjunct2, THEN conjunct2, THEN conjunct2, THEN conjunct2, THEN conjunct2]
    by simp
  from o a b c d show ?thesis by simp
qed

section \<open>Checkout\<close>

lemmas checkout_eval = checkout_def validateCheckout_def findCart_def findById_def
  findPromoByCode_def validateLine_def isInStock_def variant_index_def updateStock_def
  finalDiscount_def supplied_def truthy_str_def truthy_num_def newOrder_def recordUsage_def
  put_def findValidPromoCode_def promo_query_def toUpperCase_def upper_char_def
  calculateDiscount_def isValid_def incrementUsage_def List.map_filter_def save_new_order_def
  orderSchema_ok_def customerInfoSchema_ok_def addressSchema_ok_def Let_def

lemma validateStock_None_iff:
  "validateStock ps xs = None \<longleftrightarrow> (\<forall>x\<in>set xs. validateLine ps x = None)"
  by (induction xs) (auto split: option.splits)

lemma validateStock_first:
  "validateStock ps xs = Some e \<Longrightarrow>
   \<exists>pre item post. xs = pre @ item # post \<and> (\<forall>x\<in>set pre. validateLine ps x = None)
      \<and> validateLine ps item = Some e"
proof (induction xs)
  case Nil
  then show ?case by simp
next
  case (Cons x xs)
  show ?case
  proof (cases "validateLine ps x")
    case None
    with Cons.prems have "validateStock ps xs = Some e" by simp
    from Cons.IH [OF this] obtain pre item post where
      h: "xs = pre @ item # post" "\<forall>y\<in>set pre. validateLine ps y = None"
         "validateLine ps item = Some e" by blast
    have "x # xs = (x # pre) @ item # post" using h(1) by simp
    moreover have "\<forall>y\<in>set (x # pre). validateLine ps y = None" using h(2) None by simp
    ultimately show ?thesis using h(3) by blast
  next
    case (Some e')
    with Cons.prems have "e' = e" by simp
    with Some have "x # xs = [] @ x # xs \<and> (\<forall>y\<in>set []. validateLine ps y = None)
        \<and> validateLine ps x = Some e" by simp
    then show ?thesis by blast
  qed
qed

text \<open>The stock loop rejects exactly the lines the specification names, a line with a
  quantity equal to the stock being accepted.\<close>

lemma validateLine_None_iff: "validateLine ps item = None \<longleftrightarrow> \<not> line_rejected ps item"
  by (auto simp: validateLine_def line_rejected_def product_unavailable_def variant_missing_def
        stock_insufficient_def isInStock_def split: option.splits)

lemma validateLine_Some:
  "validateLine ps item = Some e \<Longrightarrow>
   e = (if product_unavailable ps item then ProductUnavailable (productName item)
        else InsufficientStock (productName item) (variantName item))"
  by (auto simp: product_unavailable_def validateLine_def split: option.splits if_splits)

text \<open>
  Claim C2. Checkout of a cart that resolves and is not empty, and that holds a line whose
  product is missing or inactive or whose quantity exceeds the live stock of its variant,
  fails at the first line the stock test rejects: every line before it passes the test (a
  quantity equal to the stock passes), the error is \<^verbatim>\<open>ProductUnavailable\<close> for that
  line's product when the product is missing or inactive and \<^verbatim>\<open>InsufficientStock\<close> for
  that line otherwise, and the store is returned as it was: no order, the carts, the stock
  of every variant and every promo's counter unchanged.
\<close>

theorem checkout_rejects_first_bad_line:
  assumes "findCart (req_cartId inp) now (carts s) = Some cart"
    and "items cart \<noteq> []"
    and "\<exists>item\<in>set (items cart).
           product_unavailable (products s) item \<or> stock_insufficient (products s) item"
  shows "\<exists>pre item post.
           items cart = pre @ item # post
           \<and> (\<forall>x\<in>set pre. \<not> line_rejected (products s) x)
           \<and> line_rejected (products s) item
           \<and> fst (checkout ordno now inp s) =
               Inl (if product_unavailable (products s) item
                    then ProductUnavailable (productName item)
                    else InsufficientStock (productName item) (variantName item))
           \<and> snd (checkout ordno now inp s) = s"
proof -
  from assms(3) obtain bad where "bad \<in> set (items cart)" "line_rejected (products s) bad"
    by (auto simp: line_rejected_def)
  then have "\<exists>x\<in>set (items cart). validateLine (products s) x \<noteq> None"
    using validateLine_None_iff by blast
  then have "validateStock (products s) (items cart) \<noteq> None"
    by (simp add: validateStock_None_iff)
  then obtain e where e: "validateStock (products s) (items cart) = Some e" by auto
  from validateStock_first [OF e] obtain pre item post where
    h: "items cart = pre @ item # post" "\<forall>x\<in>set pre. validateLine (products s) x = None"
       "validateLine (products s) item = Some e" by blast
  have ok: "\<forall>x\<in>set pre. \<not> line_rejected (products s) x"
    using h(2) by (simp add: validateLine_None_iff)
  have rej: "line_rejected (products s) item"
    using h(3) validateLine_None_iff [of "products s" item] by auto
  have "checkout ordno now inp s = (Inl e, s)"
    using assms(1,2) e by (simp add: checkout_def)
  with validateLine_Some [OF h(3)] h(1) ok rej show ?thesis by auto
qed

lemma two_lines_split:
  assumes "[a, b] = pre @ item # post" "\<forall>x\<in>set pre. \<not> P x" "P item"
  shows "(P a \<longrightarrow> item = a) \<and> (\<not> P a \<longrightarrow> item = b)"
proof (cases pre)
  case Nil
  with assms show ?thesis by auto
next
  case (Cons x pre')
  with assms(1) have x: "x = a" "[b] = pre' @ item # post" by simp_all
  then have "pre' = []" by (cases pre') auto
  with x Cons assms show ?thesis by auto
qed

theorem checkout_rejects_first_bad_line_witness:
  "fst (checkout ''ORD-1'' 100 (input1 None) (store1 cart1_ghost 2 True))
     = Inl (ProductUnavailable ''Ghost'')
   \<and> snd (checkout ''ORD-1'' 100 (input1 None) (store1 cart1_ghost 2 True))
     = store1 cart1_ghost 2 True
   \<and> fst (checkout ''ORD-1'' 100 (input1 None) (store1 cart1_ghost 1 True))
     = Inl (InsufficientStock ''Shirt'' ''M'')
   \<and> snd (checkout ''ORD-1'' 100 (input1 None) (store1 cart1_ghost 1 True))
     = store1 cart1_ghost 1 True"
proof -
  have f: "findCart (req_cartId (input1 None)) 100 (carts (store1 cart1_ghost st act))
      = Some cart1_ghost" for st act
    by (simp add: findCart_def input1_def store1_def cart1_ghost_eq)
  have i: "items cart1_ghost = [line1, line_ghost]" by (simp add: cart1_ghost_eq)
  have n: "items cart1_ghost \<noteq> []" by (simp add: i)
  have g: "product_unavailable (products (store1 cart1_ghost st True)) line_ghost" for st
    by (simp add: product_unavailable_def store1_def product1_def findById_def example_ids)
  have l2: "\<not> line_rejected (products (store1 cart1_ghost 2 True)) line1"
    by (simp add: line_rejected_def product_unavailable_def variant_missing_def
        stock_insufficient_def store1_def product1_def findById_def variant_index_def
        example_ids)
  have l1: "stock_insufficient (products (store1 cart1_ghost 1 True)) line1"
       "\<not> product_unavailable (products (store1 cart1_ghost 1 True)) line1"
    by (simp_all add: product_unavailable_def stock_insufficient_def store1_def product1_def
        findById_def variant_index_def example_ids)
  have e: "\<exists>item\<in>set (items cart1_ghost).
       product_unavailable (products (store1 cart1_ghost st True)) item
       \<or> stock_insufficient (products (store1 cart1_ghost st True)) item" for st
    using g [of st] by (simp add: i)
  from checkout_rejects_first_bad_line [OF f n e, of 2 "''ORD-1''"]
  obtain pre1 item1 post1 where
    a: "items cart1_ghost = pre1 @ item1 # post1"
       "\<forall>x\<in>set pre1. \<not> line_rejected (products (store1 cart1_ghost 2 True)) x"
       "line_rejected (products (store1 cart1_ghost 2 True)) item1"
       "fst (checkout ''ORD-1'' 100 (input1 None) (store1 cart1_ghost 2 True)) =
          Inl (if product_unavailable (products (store1 cart1_ghost 2 True)) item1
               then ProductUnavailable (productName item1)
               else InsufficientStock (productName item1) (variantName item1))"
       "snd (checkout ''ORD-1'' 100 (input1 None) (store1 cart1_ghost 2 True))
          = store1 cart1_ghost 2 True"
    by blast
  from two_lines_split [OF a(1) [unfolded i] a(2,3)] l2 have a1: "item1 = line_ghost" by blast
  from checkout_rejects_first_bad_line [OF f n e, of 1 "''ORD-1''"]
  obtain pre2 item2 post2 where
    b: "items cart1_ghost = pre2 @ item2 # post2"
       "\<forall>x\<in>set pre2. \<not> line_rejected (products (store1 cart1_ghost 1 True)) x"
       "line_rejected (products (store1 cart1_ghost 1 True)) item2"
       "fst (checkout ''ORD-1'' 100 (input1 None) (store1 cart1_ghost 1 True)) =
          Inl (if product_unavailable (products (store1 cart1_ghost 1 True)) item2
               then ProductUnavailable (productName item2)
               else InsufficientStock (productName item2) (variantName item2))"
       "snd (checkout ''ORD-1'' 100 (input1 None) (store1 cart1_ghost 1 True))
          = store1 cart1_ghost 1 True"
    by blast
  have "line_rejected (products (store1 cart1_ghost 1 True)) line1"
    using l1(1) by (simp add: line_rejected_def)
  with two_lines_split [OF b(1) [unfolded i] b(2,3)] have b1: "item2 = line1" by blast
  have names: "productName line_ghost = ''Ghost''" "productName line1 = ''Shirt''"
      "variantName line1 = ''M''"
    by (simp_all add: line1_def line_ghost_def)
  from a(4,5) b(4,5) a1 b1 g [of 2] l1(2) names show ?thesis by simp
qed

subsection \<open>The order's save\<close>

text \<open>The route passes no \<^verbatim>\<open>orderNumber\<close> to \<^verbatim>\<open>new Order\<close>, the schema requires one, and
  the \<^verbatim>\<open>pre('save')\<close> hook that would generate it runs after validation: the order the
  route builds never passes its save, whatever the request and the cart.\<close>

lemma newOrder_rejected:
  "save_new_order ordno (newOrder inp cart fd)
     = (Some ''Order validation failed'', newOrder inp cart fd)"
  by (simp add: save_new_order_def orderSchema_ok_def newOrder_def)

text \<open>Hence the checkout route answers every request with a failure and leaves the store
  as it found it; a request that passes the cart, stock and promo tests is answered with
  the \<^verbatim>\<open>catch\<close> block's 500.\<close>

lemma checkout_never_creates_order:
  "(\<exists>e. fst (checkout ordno now inp s) = Inl e) \<and> snd (checkout ordno now inp s) = s"
  by (simp add: checkout_def newOrder_rejected split: option.splits sum.splits)

lemma checkout_past_tests:
  assumes "findCart (req_cartId inp) now (carts s) = Some cart" "items cart \<noteq> []"
    "validateStock (products s) (items cart) = None"
    "finalDiscount (req_promoCode inp) now cart (promoCodes s) = Inr fd"
  shows "checkout ordno now inp s = (Inl (InternalError ''Order validation failed''), s)"
  using assms by (simp add: checkout_def newOrder_rejected)


subsection \<open>The writes after the order's save\<close>

lemma find_map_same_key:
  assumes "\<And>d. key (f d) = key d"
  shows "find (\<lambda>d. key d = k) (map f ds) = map_option f (find (\<lambda>d. key d = k) ds)"
  using assms by (induction ds) simp_all

lemma find_Some_mem: "find P xs = Some x \<Longrightarrow> x \<in> set xs \<and> P x"
  by (induction xs) (auto split: if_splits)

lemma findById_put:
  assumes "findById (product_id p') ps = Some p"
  shows "findById pid (put product_id p' ps) =
           (if pid = product_id p' then Some p' else findById pid ps)"
proof -
  from assms have m: "p \<in> set ps" "product_id p = product_id p'"
    using find_Some_mem [of "\<lambda>d. product_id d = product_id p'" ps p]
    by (simp_all add: findById_def)
  then have ex: "list_ex (\<lambda>d. product_id d = product_id p') ps"
    by (auto simp: list_ex_iff)
  let ?f = "\<lambda>d. if product_id d = product_id p' then p' else d"
  have k: "\<And>d. product_id (?f d) = product_id d" by simp
  have "findById pid (put product_id p' ps) = map_option ?f (findById pid ps)"
    using ex find_map_same_key [of product_id ?f pid ps, OF k]
    by (simp add: put_def findById_def)
  also have "\<dots> = (if pid = product_id p' then Some p' else findById pid ps)"
  proof (cases "pid = product_id p'")
    case True
    with assms m(2) show ?thesis by simp
  next
    case False
    show ?thesis
    proof (cases "findById pid ps")
      case None
      with False show ?thesis by simp
    next
      case (Some d)
      then have "product_id d = pid"
        using find_Some_mem [of "\<lambda>d. product_id d = pid" ps d] by (simp add: findById_def)
      with False Some show ?thesis by simp
    qed
  qed
  finally show ?thesis .
qed

lemma findIndex_update_same:
  "i < length xs \<Longrightarrow> P y = P (xs ! i) \<Longrightarrow> findIndex P (xs[i := y]) = findIndex P xs"
proof (induction xs arbitrary: i)
  case Nil
  then show ?case by simp
next
  case (Cons x xs)
  show ?case
  proof (cases i)
    case 0
    with Cons.prems show ?thesis by simp
  next
    case (Suc k)
    with Cons.prems have "findIndex P (xs[k := y]) = findIndex P xs"
      using Cons.IH [of k] by simp
    with Suc show ?thesis by simp
  qed
qed

lemma variant_index_stock_update:
  "variant_index vid (p\<lparr>variants := (variants p)[i := (variants p ! i)\<lparr>stock := s\<rparr>]\<rparr>)
     = variant_index vid p"
proof (cases "i < length (variants p)")
  case True
  then show ?thesis
    unfolding variant_index_def by (simp add: findIndex_update_same)
next
  case False
  then have "length (variants p) \<le> i" by simp
  then have "(variants p)[i := (variants p ! i)\<lparr>stock := s\<rparr>] = variants p"
    by (rule list_update_beyond)
  then show ?thesis by (simp add: variant_index_def)
qed

lemma updateStock_ok:
  assumes "updateStock vid q p = (None, p')"
  shows "\<exists>i. variant_index vid p = Some i \<and> i < length (variants p) \<and> q \<le> stock (variants p ! i)
           \<and> p' = p\<lparr>variants := (variants p)[i := (variants p ! i)\<lparr>stock := stock (variants p ! i) - q\<rparr>]\<rparr>"
  using assms
  by (auto simp: updateStock_def Let_def variant_index_def findIndex_Some_iff
           split: option.splits if_splits)

lemma stockOf_step:
  assumes f: "findById pid ps = Some p" and u: "updateStock vid q p = (None, p')"
  shows "stockOf (put product_id p' ps) pid' vid' =
           (if pid' = pid \<and> vid' = vid then map_option (\<lambda>s. s - q) (stockOf ps pid' vid')
            else stockOf ps pid' vid')"
proof -
  from updateStock_ok [OF u] obtain i where
    i: "variant_index vid p = Some i" "i < length (variants p)"
       "p' = p\<lparr>variants := (variants p)[i := (variants p ! i)\<lparr>stock := stock (variants p ! i) - q\<rparr>]\<rparr>"
    by blast
  have pid: "product_id p = pid"
    using f find_Some_mem [of "\<lambda>d. product_id d = pid" ps p] by (simp add: findById_def)
  have pid': "product_id p' = pid" using i(3) pid by simp
  have fp: "findById (product_id p') ps = Some p" using f pid' by simp
  note look = findById_put [OF fp, of pid']
  have vi: "variant_index vid' p' = variant_index vid' p"
    using i(3) variant_index_stock_update by simp
  show ?thesis
  proof (cases "pid' = pid")
    case False
    with look pid' show ?thesis by (simp add: stockOf_def)
  next
    case True
    show ?thesis
    proof (cases "vid' = vid")
      case True
      with \<open>pid' = pid\<close> look pid' f i vi show ?thesis
        by (simp add: stockOf_def)
    next
      case False
      have "stockOf (put product_id p' ps) pid' vid' = stockOf ps pid' vid'"
      proof (cases "variant_index vid' p")
        case None
        with \<open>pid' = pid\<close> look pid' f vi show ?thesis by (simp add: stockOf_def)
      next
        case (Some j)
        then have "variant_id (variants p ! j) = vid'"
          by (simp add: variant_index_def findIndex_Some_iff)
        moreover have "variant_id (variants p ! i) = vid"
          using i(1) by (simp add: variant_index_def findIndex_Some_iff)
        ultimately have "j \<noteq> i" using False by auto
        with Some \<open>pid' = pid\<close> look pid' f vi i(3) show ?thesis
          by (simp add: stockOf_def)
      qed
      with False show ?thesis by simp
    qed
  qed
qed

lemma updateStockAll_stock:
  "updateStockAll lines ps = (None, ps') \<Longrightarrow>
   stockOf ps' pid vid =
     map_option (\<lambda>s. s - sum_list (map quantity (filter (same_line pid vid) lines)))
       (stockOf ps pid vid)"
proof (induction lines arbitrary: ps)
  case Nil
  then show ?case by (simp add: option.map_ident)
next
  case (Cons item rest)
  show ?case
  proof (cases "findById (productId item) ps")
    case None
    with Cons.prems have r: "updateStockAll rest ps = (None, ps')" by simp
    have "same_line pid vid item \<Longrightarrow> stockOf ps pid vid = None"
      using None by (simp add: same_line_def stockOf_def)
    with Cons.IH [OF r] show ?thesis by (cases "same_line pid vid item") simp_all
  next
    case (Some p)
    obtain err p' where u: "updateStock (variantId item) (quantity item) p = (err, p')"
      by (cases "updateStock (variantId item) (quantity item) p")
    with Cons.prems Some have e: "err = None" by (cases err) simp_all
    with Cons.prems Some u have r: "updateStockAll rest (put product_id p' ps) = (None, ps')"
      by simp
    note st = stockOf_step [OF Some u [unfolded e], of pid vid]
    show ?thesis
    proof (cases "same_line pid vid item")
      case True
      then have "pid = productId item \<and> vid = variantId item" by (auto simp: same_line_def)
      with st Cons.IH [OF r] True show ?thesis
        by (cases "stockOf ps pid vid") (simp_all add: algebra_simps)
    next
      case False
      then have "\<not> (pid = productId item \<and> vid = variantId item)" by (auto simp: same_line_def)
      with st Cons.IH [OF r] False show ?thesis by simp
    qed
  qed
qed

lemma recordUsage_none: "supplied pc = None \<Longrightarrow> recordUsage pc promos = promos"
  by (simp add: recordUsage_def)

lemma recordUsage_found:
  assumes "supplied pc = Some c" "findPromoByCode c promos = Some p"
    "distinct (map promo_id promos)"
  shows "recordUsage pc promos =
           map (\<lambda>d. if d = p then d\<lparr>usedCount := usedCount d + 1\<rparr> else d) promos"
proof -
  from assms(2) have m: "p \<in> set promos"
    using find_Some_mem [of "\<lambda>d. code d = toUpperCase c" promos p]
    by (simp add: findPromoByCode_def)
  then have ex: "list_ex (\<lambda>d. promo_id d = promo_id (incrementUsage p)) promos"
    by (auto simp: list_ex_iff incrementUsage_def)
  have "\<forall>d\<in>set promos. (promo_id d = promo_id p) = (d = p)"
    using assms(3) m by (auto simp: distinct_map inj_on_def)
  then have "map (\<lambda>d. if promo_id d = promo_id (incrementUsage p) then incrementUsage p else d) promos
      = map (\<lambda>d. if d = p then d\<lparr>usedCount := usedCount d + 1\<rparr> else d) promos"
    by (auto simp: incrementUsage_def)
  with ex assms(1,2) show ?thesis by (simp add: recordUsage_def put_def)
qed

subsection \<open>The validate-only route\<close>

lemma map_filter_length:
  "length (List.map_filter f xs) = length (filter (\<lambda>x. f x \<noteq> None) xs)"
  by (induction xs) (auto simp: List.map_filter_def)

lemma map_filter_Nil_iff: "List.map_filter f xs = [] \<longleftrightarrow> (\<forall>x\<in>set xs. f x = None)"
  by (induction xs) (auto simp: List.map_filter_def)

text \<open>For a cart that resolves, the validate-only route answers without writing
  anything: one problem for each line the stock test rejects, in the order of the lines,
  then one for a supplied promo code that does not qualify; the flag is true exactly when
  no problem was collected, which is when the checkout route would pass its stock and
  promo tests.\<close>

lemma validateCheckout_collects:
  assumes "findCart (req_cartId inp) now (carts s) = Some cart"
  shows "\<exists>v. validateCheckout now inp s = (Inr v, s)
     \<and> v_cart v = cart
     \<and> v_isValid v = (v_errors v = [])
     \<and> v_errors v =
         List.map_filter (validateLine (products s)) (items cart)
         @ (case supplied (req_promoCode inp) of
              None \<Rightarrow> []
            | Some c \<Rightarrow>
                (case findValidPromoCode c (subtotal cart) now (promoCodes s) of
                   None \<Rightarrow> [InvalidPromo]
                 | Some found \<Rightarrow> []))
     \<and> (v_isValid v \<longleftrightarrow>
          validateStock (products s) (items cart) = None
          \<and> finalDiscount (req_promoCode inp) now cart (promoCodes s) \<noteq> Inl InvalidPromo)"
  using assms
  by (auto simp: validateCheckout_def Let_def finalDiscount_def validateStock_None_iff
        map_filter_Nil_iff split: option.splits)

text \<open>
  Claim C6. The validate-only route should report a problem for a cart with no lines, as
  the checkout route does with \<^verbatim>\<open>Cart is empty\<close>. It has no such test: for an empty cart
  and no promo code it answers \<^verbatim>\<open>isValid = true\<close> with no problems, and the checkout of
  the same request fails with \<^verbatim>\<open>EmptyCart\<close>.
\<close>

theorem validateCheckout_accepts_empty_cart:
  "validateCheckout 100 (input1 None) (store1 (new_cart ''c1'' ''tok1'' 0) 5 True) =
     (Inr \<lparr>v_isValid = True, v_errors = [], v_cart = new_cart ''c1'' ''tok1'' 0\<rparr>,
      store1 (new_cart ''c1'' ''tok1'' 0) 5 True)
   \<and> checkout ''ORD-1'' 100 (input1 None) (store1 (new_cart ''c1'' ''tok1'' 0) 5 True) =
     (Inl EmptyCart, store1 (new_cart ''c1'' ''tok1'' 0) 5 True)"
  by (simp add: store1_def input1_def new_cart_def save_def calculateTotals_def checkout_eval)

end
